theory Spec2Isabelle
  imports Complex_Main "HOL-Library.AList"
begin

section \<open>BombSquad multiplayer server: the room simulation of \<open>server.js\<close>\<close>

text \<open>
  The development embeds the \<open>GameRoom\<close> class and the socket handlers of
  \<open>server.js\<close>, together with the variant of the same server that the repository keeps
  beside its README (the "standalone" server, which adds the table of transitioning
  players). JavaScript \<open>Map\<close>s are association lists in insertion order:
  \<open>map_of\<close> is \<open>get\<close>, \<open>AList.update\<close> is \<open>set\<close> (an existing key keeps its place, a new
  key goes last), \<open>AList.delete\<close> is \<open>delete\<close> and \<open>length\<close> is \<open>size\<close>.
  Coordinates, health and counters are JavaScript numbers; they are modelled as unbounded
  integers, and the coordinates that clients send are taken to be integers.
  Several classes have fields called \<open>id\<close>, \<open>x\<close> and \<open>y\<close>; the records prefix them
  with the class name. The parameter \<open>power\<close> is written \<open>pwr\<close>. The id of a block,
  \<open>`block_${x}_${y}`\<close>, repeats its position and is left out, and so is the \<open>lastUpdate\<close>
  stamp of the standalone server, which nothing reads.
\<close>

subsection \<open>Explosion engine: \<open>calculateExplosion\<close>\<close>

type_synonym cell = "int \<times> int"

record block =
  block_x :: int
  block_y :: int

text \<open>The bounds check of the inner loop: \<open>checkX < 50 || checkX > 1024 - 50 || ...\<close>.\<close>

definition out_of_bounds :: "int \<Rightarrow> int \<Rightarrow> bool" where
  "out_of_bounds checkX checkY \<longleftrightarrow>
     checkX < 50 \<or> checkX > 1024 - 50 \<or> checkY < 50 \<or> checkY > 768 - 50"

text \<open>The scan of \<open>this.destructibleBlocks\<close> that sets \<open>blocked\<close>.\<close>

definition blocked_at :: "block list \<Rightarrow> int \<Rightarrow> int \<Rightarrow> bool" where
  "blocked_at blocks checkX checkY =
     list_ex (\<lambda>b. \<bar>block_x b - checkX\<bar> < 32 \<and> \<bar>block_y b - checkY\<bar> < 32) blocks"

text \<open>\<open>(checkX, checkY)\<close> at step \<open>i\<close> of direction \<open>dir\<close>, with \<open>gridSize = 64\<close>.\<close>

definition check_cell :: "int \<Rightarrow> int \<Rightarrow> int \<times> int \<Rightarrow> int \<Rightarrow> cell" where
  "check_cell x y dir i = (x + fst dir * 64 * i, y + snd dir * 64 * i)"

text \<open>
  The body of \<open>directions.forEach\<close>: the loop \<open>for (let i = 1; i <= power; i++)\<close> from
  index \<open>i\<close> on, returning the cells it pushes. The first \<open>break\<close> pushes nothing, the
  second one comes after the push.
\<close>

function explosion_ray ::
  "block list \<Rightarrow> int \<Rightarrow> int \<Rightarrow> int \<Rightarrow> int \<times> int \<Rightarrow> int \<Rightarrow> cell list" where
  "explosion_ray blocks x y pwr dir i =
     (if i \<le> pwr then
        (if out_of_bounds (fst (check_cell x y dir i)) (snd (check_cell x y dir i)) then []
         else if blocked_at blocks (fst (check_cell x y dir i)) (snd (check_cell x y dir i))
           then [check_cell x y dir i]
         else check_cell x y dir i # explosion_ray blocks x y pwr dir (i + 1))
      else [])"
  by pat_completeness auto
termination
  by (relation "measure (\<lambda>(blocks, x, y, pwr, dir, i). nat (pwr + 1 - i))") auto

definition directions :: "(int \<times> int) list" where
  "directions = [(1, 0), (-1, 0), (0, 1), (0, -1)]"

definition calculateExplosion :: "block list \<Rightarrow> int \<Rightarrow> int \<Rightarrow> int \<Rightarrow> cell list" where
  "calculateExplosion blocks x y pwr =
     (x, y) # concat (map (\<lambda>dir. explosion_ray blocks x y pwr dir 1) directions)"

text \<open>Vocabulary of the statements about the blast: a cell within the 50-unit margin of the
  arena, and a cell that a destructible block occupies.\<close>

definition inside_margin :: "cell \<Rightarrow> bool" where
  "inside_margin c = (\<not> out_of_bounds (fst c) (snd c))"

definition holds_block :: "block list \<Rightarrow> cell \<Rightarrow> bool" where
  "holds_block blocks c = blocked_at blocks (fst c) (snd c)"

subsection \<open>The data of a room\<close>

datatype gameState = Waiting | Playing | Finished

datatype powerUpType = SpeedUp | BombsUp | PowerUp | HealthUp

text \<open>\<open>player.powerUps\<close>. The speed multiplier is an IEEE double in the source; the field
  holds its value (see \<open>to_double\<close> below for the arithmetic).\<close>

record powerUpTally =
  tally_speed :: real
  tally_bombs :: int
  tally_power :: int

record player =
  player_id :: nat
  socket :: string
  name :: string
  player_x :: int
  player_y :: int
  health :: int
  isAlive :: bool
  bombCapacity :: int
  bombCount :: int
  bombPower :: int
  player_powerUps :: powerUpTally

record bomb =
  bomb_id :: string
  bomb_x :: int
  bomb_y :: int
  owner :: nat
  bomb_power :: int
  fuseTime :: nat
  placedAt :: nat

record powerUp =
  powerUp_id :: string
  powerUp_type :: powerUpType
  powerUp_x :: int
  powerUp_y :: int
  spawnedAt :: nat

record room =
  roomId :: string
  maxPlayers :: int
  players :: "(nat \<times> player) list"
  gameState :: gameState
  gameStartTime :: "nat option"
  bombs :: "(string \<times> bomb) list"
  powerUps :: "(string \<times> powerUp) list"
  destructibleBlocks :: "block list"
  roundTimer :: nat

text \<open>
  Events sent to clients. \<open>getGameState()\<close> copies the fields of the room, so a snapshot
  is the room value at the moment of the call. An emission names the receiver: one socket
  (\<open>socket.emit\<close>, and each iteration of \<open>broadcastToRoom\<close>), or every socket of the
  room's channel but the sender (\<open>socket.to(roomId).emit\<close>). The flag of \<open>RoomJoined\<close> is
  \<open>isReconnecting\<close>, a field that only the standalone server sends.
\<close>

datatype event =
    RoomCreated string nat room
  | RoomJoined nat room "bool option"
  | PlayerJoined player room
  | PlayerMoved nat int int
  | BombPlaced bomb nat
  | BombExploded string "cell list" "block list" "player list" "powerUp list"
  | PowerUpCollected string nat "player list"
  | GameStarted room
  | GameStateUpdate room
  | PlayerLeft nat room
  | GameOver "nat option" "player list"
  | ErrorMessage string

datatype receiver = ToSocket string | ToOthers string string

type_synonym emission = "receiver \<times> event"

text \<open>\<open>broadcastToRoom\<close>: \<open>online\<close> tells whether \<open>io.sockets.sockets\<close> holds the id;
  a player whose socket is gone is skipped.\<close>

definition broadcastToRoom :: "(string \<Rightarrow> bool) \<Rightarrow> room \<Rightarrow> event \<Rightarrow> emission list" where
  "broadcastToRoom online r ev =
     map (\<lambda>p. (ToSocket (socket p), ev)) (filter (\<lambda>p. online (socket p)) (map snd (players r)))"

subsection \<open>The constructor and the block layout\<close>

text \<open>The two \<open>for\<close> loops of \<open>initializeDestructibleBlocks\<close> step by 64 below a limit.\<close>

function grid_steps :: "int \<Rightarrow> int \<Rightarrow> int list" where
  "grid_steps x limit = (if x < limit then x # grid_steps (x + 64) limit else [])"
  by pat_completeness auto
termination
  by (relation "measure (\<lambda>(x, limit). nat (limit - x))") auto

definition corners :: "(int \<times> int) list" where
  "corners = [(64, 64), (1024 - 64, 64), (64, 768 - 64), (1024 - 64, 768 - 64)]"

definition indestructible :: "(int \<times> int) list" where
  "indestructible =
     [(200, 200), (200, 400), (200, 600), (400, 200), (400, 600),
      (600, 200), (600, 600), (800, 200), (800, 400), (800, 600)]"

definition tooClose :: "int \<Rightarrow> int \<Rightarrow> bool" where
  "tooClose x y \<longleftrightarrow>
     list_ex (\<lambda>c. \<bar>x - fst c\<bar> < 100 \<and> \<bar>y - snd c\<bar> < 100) corners \<or>
     list_ex (\<lambda>pos. \<bar>x - fst pos\<bar> < 50 \<and> \<bar>y - snd pos\<bar> < 50) indestructible"

text \<open>\<open>keep x y\<close> is the outcome of the draw \<open>Math.random() < 0.6\<close> made for the cell; the
  draw is only made when the cell is not too close.\<close>

definition initializeDestructibleBlocks :: "(int \<Rightarrow> int \<Rightarrow> bool) \<Rightarrow> block list" where
  "initializeDestructibleBlocks keep =
     concat (map (\<lambda>x. concat (map (\<lambda>y.
        if \<not> tooClose x y \<and> keep x y then [\<lparr>block_x = x, block_y = y\<rparr>] else [])
        (grid_steps 100 (768 - 100)))) (grid_steps 100 (1024 - 100)))"

definition GameRoom :: "string \<Rightarrow> int \<Rightarrow> (int \<Rightarrow> int \<Rightarrow> bool) \<Rightarrow> room" where
  "GameRoom rid maxP keep =
     \<lparr>roomId = rid, maxPlayers = maxP, players = [], gameState = Waiting,
      gameStartTime = None, bombs = [], powerUps = [],
      destructibleBlocks = initializeDestructibleBlocks keep, roundTimer = 120\<rparr>"

subsection \<open>Joining and leaving\<close>

datatype error = TypeError

text \<open>Template literals print numbers in decimal.\<close>

definition digit_char :: "nat \<Rightarrow> char" where
  "digit_char d = ''0123456789'' ! d"

fun string_of_nat :: "nat \<Rightarrow> string" where
  "string_of_nat n =
     (if n < 10 then [digit_char n]
      else string_of_nat (n div 10) @ [digit_char (n mod 10)])"

definition spawnPositions :: "(int \<times> int) list" where
  "spawnPositions = [(64, 64), (1024 - 64, 64), (64, 768 - 64), (1024 - 64, 768 - 64)]"

text \<open>
  \<open>addPlayer\<close>. The name is \<open>playerData.name || `Player ${playerId}`\<close>: a missing or empty
  name is falsy. \<open>spawnPositions[playerId - 1]\<close> is \<open>undefined\<close> from the fifth slot on
  and reading \<open>.x\<close> of it throws before anything is stored. The result is the exception,
  \<open>false\<close> (\<open>None\<close>) for a full room, or the new player with the updated room. The two
  servers differ in the initial \<open>bombPower\<close> only (3 in \<open>server.js\<close>, 5 in the
  standalone server).
\<close>

definition addPlayer_with ::
  "int \<Rightarrow> string \<Rightarrow> string option \<Rightarrow> room \<Rightarrow> error + (player \<times> room) option" where
  "addPlayer_with pwr0 sock nm r =
     (if int (length (players r)) \<ge> maxPlayers r then Inr None
      else
        let playerId = length (players r) + 1 in
        if playerId - 1 < length spawnPositions then
          let p = \<lparr>player_id = playerId, socket = sock,
                   name = (case nm of None \<Rightarrow> ''Player '' @ string_of_nat playerId
                           | Some s \<Rightarrow> if s = [] then ''Player '' @ string_of_nat playerId else s),
                   player_x = fst (spawnPositions ! (playerId - 1)),
                   player_y = snd (spawnPositions ! (playerId - 1)),
                   health = 100, isAlive = True, bombCapacity = 1, bombCount = 0,
                   bombPower = pwr0,
                   player_powerUps = \<lparr>tally_speed = 1, tally_bombs = 0, tally_power = 0\<rparr>\<rparr>
          in Inr (Some (p, r\<lparr>players := AList.update playerId p (players r)\<rparr>))
        else Inl TypeError)"

definition addPlayer :: "string \<Rightarrow> string option \<Rightarrow> room \<Rightarrow> error + (player \<times> room) option" where
  "addPlayer = addPlayer_with 3"

definition addPlayer_standalone ::
  "string \<Rightarrow> string option \<Rightarrow> room \<Rightarrow> error + (player \<times> room) option" where
  "addPlayer_standalone = addPlayer_with 5"

text \<open>\<open>removePlayer\<close>: the first entry, in insertion order, whose socket is the given one.\<close>

definition removePlayer :: "string \<Rightarrow> room \<Rightarrow> nat option \<times> room" where
  "removePlayer socketId r =
     (case find (\<lambda>kp. socket (snd kp) = socketId) (players r) of
        None \<Rightarrow> (None, r)
      | Some kp \<Rightarrow> (Some (fst kp), r\<lparr>players := AList.delete (fst kp) (players r)\<rparr>))"

definition canStartGame :: "room \<Rightarrow> bool" where
  "canStartGame r \<longleftrightarrow> length (players r) \<ge> 2 \<and> gameState r = Waiting"

definition startGame :: "nat \<Rightarrow> room \<Rightarrow> room" where
  "startGame now r = r\<lparr>gameState := Playing, gameStartTime := Some now, roundTimer := 120\<rparr>"

subsection \<open>Moving, placing bombs, collecting power-ups\<close>

text \<open>\<open>a || b\<close> on numbers: zero is falsy.\<close>

definition js_or :: "int \<Rightarrow> int \<Rightarrow> int" where
  "js_or a b = (if a = 0 then b else a)"

definition updatePlayer :: "nat \<Rightarrow> int \<Rightarrow> int \<Rightarrow> room \<Rightarrow> bool \<times> room" where
  "updatePlayer playerId ux uy r =
     (case map_of (players r) playerId of
        None \<Rightarrow> (False, r)
      | Some p \<Rightarrow>
          if isAlive p then
            (True, r\<lparr>players := AList.update playerId
               (p\<lparr>player_x := max 32 (min (1024 - 32) (js_or ux (player_x p))),
                  player_y := max 32 (min (768 - 32) (js_or uy (player_y p)))\<rparr>) (players r)\<rparr>)
          else (False, r))"

text \<open>\<open>Math.round(x / gridSize) * gridSize\<close>: \<open>Math.round\<close> rounds halves up.\<close>

definition snap_to_grid :: "int \<Rightarrow> int" where
  "snap_to_grid x = ((x + 32) div 64) * 64"

definition placeBomb :: "nat \<Rightarrow> nat \<Rightarrow> int \<Rightarrow> int \<Rightarrow> room \<Rightarrow> bomb option \<times> room" where
  "placeBomb now playerId x y r =
     (case map_of (players r) playerId of
        None \<Rightarrow> (None, r)
      | Some p \<Rightarrow>
          if \<not> isAlive p \<or> bombCount p \<ge> bombCapacity p then (None, r)
          else
            let bombX = snap_to_grid x; bombY = snap_to_grid y in
            if list_ex (\<lambda>kb. \<bar>bomb_x (snd kb) - bombX\<bar> < 32 \<and> \<bar>bomb_y (snd kb) - bombY\<bar> < 32)
                 (bombs r)
            then (None, r)
            else
              let bombId = ''bomb_'' @ string_of_nat now @ ''_'' @ string_of_nat playerId;
                  b = \<lparr>bomb_id = bombId, bomb_x = bombX, bomb_y = bombY, owner = playerId,
                       bomb_power = bombPower p, fuseTime = 3000, placedAt = now\<rparr>
              in (Some b,
                  r\<lparr>bombs := AList.update bombId b (bombs r),
                    players := AList.update playerId (p\<lparr>bombCount := bombCount p + 1\<rparr>)
                      (players r)\<rparr>))"

text \<open>
  The speed multiplier is an IEEE double; the record holds the real number that the
  double denotes. It starts at 1 and \<open>Math.min(speed + 0.3, 2)\<close> keeps it in \<open>[1, 2]\<close>, so
  the sum lies in \<open>[1, 4)\<close>, where the doubles are the multiples of \<open>2\<^sup>-\<^sup>5\<^sup>2\<close> (below 2)
  and of \<open>2\<^sup>-\<^sup>5\<^sup>1\<close> (from 2 on). \<open>to_double\<close> is the rounding of the exact sum to the nearest
  double of that range, ties to the even one, and \<open>double_0_3\<close> is the double that the
  literal \<open>0.3\<close> denotes.
\<close>

definition round_to_even :: "real \<Rightarrow> int" where
  "round_to_even z =
     (if z - of_int \<lfloor>z\<rfloor> < 1 / 2 then \<lfloor>z\<rfloor>
      else if z - of_int \<lfloor>z\<rfloor> > 1 / 2 then \<lfloor>z\<rfloor> + 1
      else if even \<lfloor>z\<rfloor> then \<lfloor>z\<rfloor> else \<lfloor>z\<rfloor> + 1)"

definition to_double :: "real \<Rightarrow> real" where
  "to_double x =
     (if x < 2 then of_int (round_to_even (x * 2 ^ 52)) / 2 ^ 52
      else of_int (round_to_even (x * 2 ^ 51)) / 2 ^ 51)"

definition double_0_3 :: real where
  "double_0_3 = 5404319552844595 / 2 ^ 54"

text \<open>The \<open>switch\<close> of \<open>collectPowerUp\<close>.\<close>

definition applyPowerUp :: "powerUpType \<Rightarrow> player \<Rightarrow> player" where
  "applyPowerUp ty p =
     (case ty of
        SpeedUp \<Rightarrow> p\<lparr>player_powerUps := (player_powerUps p)
                     \<lparr>tally_speed :=
                        min (to_double (tally_speed (player_powerUps p) + double_0_3)) 2\<rparr>\<rparr>
      | BombsUp \<Rightarrow> p\<lparr>bombCapacity := bombCapacity p + 1,
                     player_powerUps := (player_powerUps p)
                       \<lparr>tally_bombs := tally_bombs (player_powerUps p) + 1\<rparr>\<rparr>
      | PowerUp \<Rightarrow> p\<lparr>bombPower := bombPower p + 1,
                     player_powerUps := (player_powerUps p)
                       \<lparr>tally_power := tally_power (player_powerUps p) + 1\<rparr>\<rparr>
      | HealthUp \<Rightarrow> p\<lparr>health := min (health p + 30) 100\<rparr>)"

definition collectPowerUp :: "nat \<Rightarrow> string \<Rightarrow> room \<Rightarrow> bool \<times> room" where
  "collectPowerUp playerId powerUpId r =
     (case map_of (powerUps r) powerUpId of
        None \<Rightarrow> (False, r)
      | Some pu \<Rightarrow>
          (case map_of (players r) playerId of
             None \<Rightarrow> (False, r)
           | Some p \<Rightarrow>
               if \<not> isAlive p then (False, r)
               else (True,
                     r\<lparr>players := AList.update playerId (applyPowerUp (powerUp_type pu) p)
                          (players r),
                       powerUps := AList.delete powerUpId (powerUps r)\<rparr>)))"

subsection \<open>Detonation and the win check\<close>

text \<open>The proximity test \<open>Math.sqrt(dx\<^sup>2 + dy\<^sup>2) < 40\<close> against each area in turn; on integer
  coordinates it is \<open>dx\<^sup>2 + dy\<^sup>2 < 1600\<close>.\<close>

definition within_blast :: "cell list \<Rightarrow> int \<Rightarrow> int \<Rightarrow> bool" where
  "within_blast explosionAreas px py =
     list_ex (\<lambda>area. (px - fst area)\<^sup>2 + (py - snd area)\<^sup>2 < 1600) explosionAreas"

text \<open>One iteration of the damage loop: dead players are skipped, the first area in reach
  costs 25 health and ends the inner loop.\<close>

definition damagePlayer :: "cell list \<Rightarrow> player \<Rightarrow> player" where
  "damagePlayer explosionAreas p =
     (if isAlive p \<and> within_blast explosionAreas (player_x p) (player_y p)
      then p\<lparr>health := health p - 25,
             isAlive := (if health p - 25 \<le> 0 then False else isAlive p)\<rparr>
      else p)"

definition block_hit :: "cell list \<Rightarrow> block \<Rightarrow> bool" where
  "block_hit explosionAreas b =
     list_ex (\<lambda>area. \<bar>block_x b - fst area\<bar> < 32 \<and> \<bar>block_y b - snd area\<bar> < 32) explosionAreas"

text \<open>
  The random draws made for a destroyed block are an argument: \<open>rng b\<close> is \<open>None\<close> when
  \<open>Math.random() < 0.3\<close> fails, otherwise the id \<open>`powerup_${Date.now()}_${Math.random()}`\<close>
  and the type drawn for the new power-up.
\<close>

type_synonym spawn_draws = "block \<Rightarrow> (string \<times> powerUpType) option"

definition spawnPowerUps ::
  "nat \<Rightarrow> spawn_draws \<Rightarrow> block list \<Rightarrow> (string \<times> powerUp) list \<Rightarrow> (string \<times> powerUp) list" where
  "spawnPowerUps now rng destroyedBlocks pus =
     foldl (\<lambda>m b. case rng b of
                None \<Rightarrow> m
              | Some d \<Rightarrow> AList.update (fst d)
                  \<lparr>powerUp_id = fst d, powerUp_type = snd d, powerUp_x = block_x b,
                   powerUp_y = block_y b, spawnedAt = now\<rparr> m)
       pus destroyedBlocks"

definition checkWinCondition :: "(string \<Rightarrow> bool) \<Rightarrow> room \<Rightarrow> room \<times> emission list" where
  "checkWinCondition online r =
     (let alivePlayers = filter isAlive (map snd (players r)) in
      if length alivePlayers \<le> 1 then
        (r\<lparr>gameState := Finished\<rparr>,
         broadcastToRoom online r
           (GameOver (case alivePlayers of [w] \<Rightarrow> Some (player_id w) | _ \<Rightarrow> None)
              (map snd (players r))))
      else (r, []))"

text \<open>
  \<open>explodeBomb\<close>, returning the room, the ids of the bombs for which a chained detonation
  is scheduled 50 ms later, and the events sent. The two servers differ in the owner's
  decrement only: \<open>owner.bombCount--\<close> in \<open>server.js\<close>,
  \<open>owner.bombCount = Math.max(0, owner.bombCount - 1)\<close> in the standalone server.
\<close>

definition explodeBomb_with ::
  "(int \<Rightarrow> int) \<Rightarrow> nat \<Rightarrow> spawn_draws \<Rightarrow> (string \<Rightarrow> bool) \<Rightarrow> string \<Rightarrow> room
     \<Rightarrow> room \<times> string list \<times> emission list" where
  "explodeBomb_with dec now rng online bombId r =
     (case map_of (bombs r) bombId of
        None \<Rightarrow> (r, [], [])
      | Some b \<Rightarrow>
          let bombs1 = AList.delete bombId (bombs r);
              players1 =
                (case map_of (players r) (owner b) of
                   None \<Rightarrow> players r
                 | Some ownr \<Rightarrow>
                     AList.update (owner b) (ownr\<lparr>bombCount := dec (bombCount ownr)\<rparr>) (players r));
              explosionAreas =
                calculateExplosion (destructibleBlocks r) (bomb_x b) (bomb_y b) (bomb_power b);
              players2 = map (\<lambda>kp. (fst kp, damagePlayer explosionAreas (snd kp))) players1;
              chain =
                map (\<lambda>kb. bomb_id (snd kb))
                  (filter (\<lambda>kb. bomb_id (snd kb) \<noteq> bombId \<and>
                       within_blast explosionAreas (bomb_x (snd kb)) (bomb_y (snd kb))) bombs1);
              destroyedBlocks = filter (block_hit explosionAreas) (destructibleBlocks r);
              r1 = r\<lparr>bombs := bombs1, players := players2,
                     powerUps := spawnPowerUps now rng destroyedBlocks (powerUps r),
                     destructibleBlocks :=
                       filter (\<lambda>blk. \<not> block_hit explosionAreas blk) (destructibleBlocks r)\<rparr>;
              exploded =
                broadcastToRoom online r1
                  (BombExploded bombId explosionAreas destroyedBlocks (map snd (players r1))
                     (map snd (powerUps r1)));
              won = checkWinCondition online r1
          in (fst won, chain, exploded @ snd won))"

definition explodeBomb ::
  "nat \<Rightarrow> spawn_draws \<Rightarrow> (string \<Rightarrow> bool) \<Rightarrow> string \<Rightarrow> room \<Rightarrow> room \<times> string list \<times> emission list" where
  "explodeBomb = explodeBomb_with (\<lambda>c. c - 1)"

definition explodeBomb_standalone ::
  "nat \<Rightarrow> spawn_draws \<Rightarrow> (string \<Rightarrow> bool) \<Rightarrow> string \<Rightarrow> room \<Rightarrow> room \<times> string list \<times> emission list" where
  "explodeBomb_standalone = explodeBomb_with (\<lambda>c. max 0 (c - 1))"

subsection \<open>The operations that reach a room\<close>

text \<open>
  What the socket handlers and the timers of \<open>server.js\<close> do to one room, once the
  handler has found the room of the connection in \<open>playerSockets\<close> and \<open>gameRooms\<close>:
  \<^item> \<open>Create\<close>, \<open>Join\<close>: \<open>createRoom\<close> and \<open>joinRoom\<close> call \<open>addPlayer\<close> (an exception leaves
    the room as it was);
  \<^item> \<open>Leave\<close>: \<open>disconnect\<close> calls \<open>removePlayer\<close>;
  \<^item> \<open>AutoStart\<close>: the timer set by \<open>joinRoom\<close>, which starts the game if \<open>canStartGame\<close>
    still holds;
  \<^item> \<open>Move\<close>, \<open>Place\<close>, \<open>Pick\<close>: \<open>playerMove\<close>, \<open>placeBomb\<close> and \<open>collectPowerUp\<close>, which
    return at once unless \<open>room.gameState\<close> is \<open>'playing'\<close>;
  \<^item> \<open>Detonate\<close>: the timer set by \<open>placeBomb\<close> (3000 ms) or by a chain reaction (50 ms),
    which calls \<open>explodeBomb\<close>;
  \<^item> \<open>StartEcho\<close>: the timer set by the auto-start, which 500 ms later broadcasts the
    snapshot taken at the start once more;
  \<^item> \<open>SyncTick\<close>: the interval set by \<open>startGame\<close>.
  Time stamps (\<open>Date.now()\<close>) and random draws are arguments of the operation.
\<close>

datatype room_op =
    Create string "string option"
  | Join string "string option"
  | Leave string
  | AutoStart nat
  | Move string nat int int
  | Place nat nat int int
  | Pick nat string
  | Detonate nat spawn_draws string
  | StartEcho room
  | SyncTick

fun room_step :: "(string \<Rightarrow> bool) \<Rightarrow> room_op \<Rightarrow> room \<Rightarrow> room \<times> emission list" where
  "room_step online (Create sock nm) r =
     (case addPlayer sock nm r of
        Inl e \<Rightarrow> (r, [])
      | Inr None \<Rightarrow> (r, [])
      | Inr (Some pr) \<Rightarrow>
          (snd pr, [(ToSocket sock, RoomCreated (roomId r) (player_id (fst pr)) (snd pr))]))"
| "room_step online (Join sock nm) r =
     (case addPlayer sock nm r of
        Inl e \<Rightarrow> (r, [])
      | Inr None \<Rightarrow> (r, [(ToSocket sock, ErrorMessage ''Room is full'')])
      | Inr (Some pr) \<Rightarrow>
          (snd pr,
           (ToSocket sock, RoomJoined (player_id (fst pr)) (snd pr) None)
             # broadcastToRoom online (snd pr) (PlayerJoined (fst pr) (snd pr))))"
| "room_step online (Leave sock) r =
     (case removePlayer sock r of
        (None, r') \<Rightarrow> (r, [])
      | (Some removedPlayerId, r') \<Rightarrow>
          (r', broadcastToRoom online r' (PlayerLeft removedPlayerId r')))"
| "room_step online (AutoStart now) r =
     (if canStartGame r
      then (startGame now r, broadcastToRoom online (startGame now r) (GameStarted (startGame now r)))
      else (r, []))"
| "room_step online (Move sock playerId ux uy) r =
     (if gameState r \<noteq> Playing then (r, [])
      else (case updatePlayer playerId ux uy r of
              (True, r') \<Rightarrow> (r', [(ToOthers sock (roomId r), PlayerMoved playerId ux uy)])
            | (False, r') \<Rightarrow> (r, [])))"
| "room_step online (Place now playerId x y) r =
     (if gameState r \<noteq> Playing then (r, [])
      else (case placeBomb now playerId x y r of
              (None, r') \<Rightarrow> (r, [])
            | (Some b, r') \<Rightarrow> (r', broadcastToRoom online r' (BombPlaced b playerId))))"
| "room_step online (Pick playerId powerUpId) r =
     (if gameState r \<noteq> Playing then (r, [])
      else (case collectPowerUp playerId powerUpId r of
              (True, r') \<Rightarrow>
                (r', broadcastToRoom online r'
                       (PowerUpCollected powerUpId playerId (map snd (players r'))))
            | (False, r') \<Rightarrow> (r, [])))"
| "room_step online (Detonate now rng bombId) r =
     (fst (explodeBomb now rng online bombId r), snd (snd (explodeBomb now rng online bombId r)))"
| "room_step online (StartEcho snapshot) r =
     (r, broadcastToRoom online r (GameStateUpdate snapshot))"
| "room_step online SyncTick r =
     (r, if gameState r = Playing then broadcastToRoom online r (GameStateUpdate r) else [])"

text \<open>The room after an operation and the room after a list of them. The rooms that the
  server can reach are those that \<open>run\<close> produces from a newly constructed one.\<close>

definition step_room :: "(string \<Rightarrow> bool) \<Rightarrow> room_op \<Rightarrow> room \<Rightarrow> room" where
  "step_room online op r = fst (room_step online op r)"

definition run :: "(string \<Rightarrow> bool) \<Rightarrow> room_op list \<Rightarrow> room \<Rightarrow> room" where
  "run online ops r = foldl (\<lambda>r' op. step_room online op r') r ops"

subsection \<open>The \<open>joinRoom\<close> handler of \<open>server.js\<close>\<close>

text \<open>
  The process-wide tables: \<open>gameRooms\<close> and \<open>playerSockets\<close> (socket id to room id and
  player id). The payload of \<open>joinRoom\<close> has a room id, and may have a name and (for the
  standalone server) a player id. A handler returns the tables, the events sent and the
  timers set; the only timer \<open>joinRoom\<close> sets is the auto-start of the room, 2000 ms
  later. An exception that \<open>server.js\<close> does not catch is the result \<open>Inl\<close>.
\<close>

record server =
  gameRooms :: "(string \<times> room) list"
  playerSockets :: "(string \<times> (string \<times> nat)) list"

record joinData =
  data_roomId :: string
  data_name :: "string option"
  data_playerId :: "nat option"

datatype timer = AutoStartTimer string

definition joinRoom ::
  "(string \<Rightarrow> bool) \<Rightarrow> string \<Rightarrow> joinData \<Rightarrow> 'a server_scheme
     \<Rightarrow> error + ('a server_scheme \<times> emission list \<times> timer list)" where
  "joinRoom online sock d s =
     (case map_of (playerSockets s) sock of
        Some existingPlayerInfo \<Rightarrow> Inr (s, [], [])
      | None \<Rightarrow>
          (case map_of (gameRooms s) (data_roomId d) of
             None \<Rightarrow> Inr (s, [(ToSocket sock, ErrorMessage ''Room not found'')], [])
           | Some r \<Rightarrow>
               (case addPlayer sock (data_name d) r of
                  Inl e \<Rightarrow> Inl e
                | Inr None \<Rightarrow> Inr (s, [(ToSocket sock, ErrorMessage ''Room is full'')], [])
                | Inr (Some pr) \<Rightarrow>
                    Inr (s\<lparr>gameRooms := AList.update (data_roomId d) (snd pr) (gameRooms s),
                           playerSockets :=
                             AList.update sock (data_roomId d, player_id (fst pr)) (playerSockets s)\<rparr>,
                         (ToSocket sock, RoomJoined (player_id (fst pr)) (snd pr) None)
                           # broadcastToRoom online (snd pr) (PlayerJoined (fst pr) (snd pr)),
                         if canStartGame (snd pr) then [AutoStartTimer (data_roomId d)] else []))))"

subsection \<open>The standalone server: transitioning players and rejoining\<close>

record transition =
  trans_roomId :: string
  trans_playerId :: nat
  trans_playerName :: string
  transitionStart :: nat

record standalone_server = server +
  transitioningPlayers :: "(string \<times> transition) list"

text \<open>\<open>startGame\<close> of the standalone server also records every seated player, keyed by the
  player's socket.\<close>

definition startGame_standalone ::
  "nat \<Rightarrow> room \<Rightarrow> (string \<times> transition) list \<Rightarrow> room \<times> (string \<times> transition) list" where
  "startGame_standalone now r tps =
     (startGame now r,
      foldl (\<lambda>m p. AList.update (socket p)
                \<lparr>trans_roomId = roomId r, trans_playerId = player_id p,
                 trans_playerName = name p, transitionStart = now\<rparr> m)
        tps (map snd (players r)))"

definition rejoinTransitioningPlayer :: "string \<Rightarrow> transition \<Rightarrow> room \<Rightarrow> (player \<times> room) option" where
  "rejoinTransitioningPlayer sock oldPlayerData r =
     (case find (\<lambda>kp. name (snd kp) = trans_playerName oldPlayerData \<and>
                      fst kp = trans_playerId oldPlayerData) (players r) of
        None \<Rightarrow> None
      | Some kp \<Rightarrow>
          Some ((snd kp)\<lparr>socket := sock\<rparr>,
                r\<lparr>players := AList.update (fst kp) ((snd kp)\<lparr>socket := sock\<rparr>) (players r)\<rparr>))"

text \<open>The test of \<open>find\<close> over the entries of \<open>transitioningPlayers\<close>; \<open>===\<close> against a
  missing field of the payload is false.\<close>

definition matches_transition :: "joinData \<Rightarrow> string \<times> transition \<Rightarrow> bool" where
  "matches_transition d e \<longleftrightarrow>
     trans_roomId (snd e) = data_roomId d \<and>
     (Some (trans_playerName (snd e)) = data_name d \<or>
      Some (trans_playerId (snd e)) = data_playerId d)"

text \<open>
  \<open>joinRoom\<close> of the standalone server. The handler body is inside \<open>try\<close>; the exception
  of \<open>addPlayer\<close> is caught and answered with an error event. The last broadcast
  (\<open>gameStateUpdate\<close>, "notify all players about current state") is outside the test of
  \<open>isReconnecting\<close>.
\<close>

definition joinRoom_standalone ::
  "(string \<Rightarrow> bool) \<Rightarrow> string \<Rightarrow> joinData \<Rightarrow> standalone_server
     \<Rightarrow> standalone_server \<times> emission list \<times> timer list" where
  "joinRoom_standalone online sock d s =
     (case map_of (gameRooms s) (data_roomId d) of
        None \<Rightarrow> (s, [(ToSocket sock, ErrorMessage ''Room not found'')], [])
      | Some r \<Rightarrow>
          (case (case find (matches_transition d) (transitioningPlayers s) of
                   None \<Rightarrow> None
                 | Some e \<Rightarrow>
                     (case rejoinTransitioningPlayer sock (snd e) r of
                        None \<Rightarrow> None
                      | Some pr \<Rightarrow> Some (fst e, pr))) of
             Some rejoined \<Rightarrow>
               (let p = fst (snd rejoined); r' = snd (snd rejoined) in
                (s\<lparr>gameRooms := AList.update (data_roomId d) r' (gameRooms s),
                   playerSockets :=
                     AList.update sock (data_roomId d, player_id p) (playerSockets s),
                   transitioningPlayers := AList.delete (fst rejoined) (transitioningPlayers s)\<rparr>,
                 (ToSocket sock, RoomJoined (player_id p) r' (Some True))
                   # (if gameState r' = Playing then [(ToSocket sock, GameStarted r')] else [])
                   @ (if gameState r' = Playing
                      then broadcastToRoom online r' (GameStateUpdate r') else []),
                 []))
           | None \<Rightarrow>
               (case addPlayer_standalone sock (data_name d) r of
                  Inl e \<Rightarrow> (s, [(ToSocket sock, ErrorMessage ''Failed to join room'')], [])
                | Inr None \<Rightarrow> (s, [(ToSocket sock, ErrorMessage ''Room is full'')], [])
                | Inr (Some pr) \<Rightarrow>
                    (s\<lparr>gameRooms := AList.update (data_roomId d) (snd pr) (gameRooms s),
                       playerSockets :=
                         AList.update sock (data_roomId d, player_id (fst pr)) (playerSockets s)\<rparr>,
                     (ToSocket sock, RoomJoined (player_id (fst pr)) (snd pr) (Some False))
                       # broadcastToRoom online (snd pr) (PlayerJoined (fst pr) (snd pr))
                       @ (if gameState (snd pr) = Playing
                          then broadcastToRoom online (snd pr) (GameStateUpdate (snd pr)) else []),
                     if canStartGame (snd pr) then [AutoStartTimer (data_roomId d)] else []))))"

subsection \<open>Example data\<close>

text \<open>Every socket is connected; no block is kept by the layout; no power-up is drawn.\<close>

definition all_online :: "string \<Rightarrow> bool" where
  "all_online s = True"

definition no_blocks :: "int \<Rightarrow> int \<Rightarrow> bool" where
  "no_blocks x y = False"

definition no_draws :: spawn_draws where
  "no_draws b = None"

text \<open>A layout that keeps the single block at (228, 100), and the draw of a health
  power-up for it.\<close>

definition one_block :: "int \<Rightarrow> int \<Rightarrow> bool" where
  "one_block x y \<longleftrightarrow> x = 228 \<and> y = 100"

definition the_block :: block where
  "the_block = \<lparr>block_x = 228, block_y = 100\<rparr>"

definition health_draw :: spawn_draws where
  "health_draw b = Some (''powerup_14000_0.5'', HealthUp)"

definition pu_health :: "string \<times> powerUp" where
  "pu_health =
     (''powerup_14000_0.5'',
      \<lparr>powerUp_id = ''powerup_14000_0.5'', powerUp_type = HealthUp, powerUp_x = 228,
       powerUp_y = 100, spawnedAt = 14000\<rparr>)"

text \<open>The same power-up with another type.\<close>

definition pu_at :: "powerUpType \<Rightarrow> string \<times> powerUp" where
  "pu_at ty = (fst pu_health, (snd pu_health)\<lparr>powerUp_type := ty\<rparr>)"

text \<open>Short forms for the rooms of the examples: a player as \<open>addPlayer\<close> makes it, with
  the given socket, name, position, health, alive flag and live-bomb count; a bomb as
  \<open>placeBomb\<close> makes it; the room \<open>'r'\<close> for four players.\<close>

definition pl ::
  "nat \<Rightarrow> string \<Rightarrow> string \<Rightarrow> int \<Rightarrow> int \<Rightarrow> int \<Rightarrow> bool \<Rightarrow> int \<Rightarrow> nat \<times> player" where
  "pl k sock nm x y h alive cnt =
     (k, \<lparr>player_id = k, socket = sock, name = nm, player_x = x, player_y = y, health = h,
          isAlive = alive, bombCapacity = 1, bombCount = cnt, bombPower = 3,
          player_powerUps = \<lparr>tally_speed = 1, tally_bombs = 0, tally_power = 0\<rparr>\<rparr>)"

definition bm :: "string \<Rightarrow> int \<Rightarrow> int \<Rightarrow> nat \<Rightarrow> nat \<Rightarrow> string \<times> bomb" where
  "bm k x y own t =
     (k, \<lparr>bomb_id = k, bomb_x = x, bomb_y = y, owner = own, bomb_power = 3,
          fuseTime = 3000, placedAt = t\<rparr>)"

definition rm ::
  "(nat \<times> player) list \<Rightarrow> gameState \<Rightarrow> (string \<times> bomb) list \<Rightarrow> (string \<times> powerUp) list
     \<Rightarrow> block list \<Rightarrow> room" where
  "rm ps gs bs pus blks =
     \<lparr>roomId = ''r'', maxPlayers = 4, players = ps, gameState = gs,
      gameStartTime = (if gs = Waiting then None else Some 2000), bombs = bs, powerUps = pus,
      destructibleBlocks = blks, roundTimer = 120\<rparr>"

subsection \<open>Vocabulary of the statements\<close>

text \<open>The health a player can have: a multiple of 5, between 5 and 100 while alive and
  between -20 and 0 once dead.\<close>

definition health_ok :: "player \<Rightarrow> bool" where
  "health_ok p \<longleftrightarrow>
     health p mod 5 = 0 \<and>
     (if isAlive p then 5 \<le> health p \<and> health p \<le> 100 else - 20 \<le> health p \<and> health p \<le> 0)"

definition phase_rank :: "gameState \<Rightarrow> nat" where
  "phase_rank g = (case g of Waiting \<Rightarrow> 0 | Playing \<Rightarrow> 1 | Finished \<Rightarrow> 2)"

definition is_PlayerJoined :: "event \<Rightarrow> bool" where
  "is_PlayerJoined ev = (case ev of PlayerJoined p r \<Rightarrow> True | _ \<Rightarrow> False)"

text \<open>The room with the seat \<open>k\<close> of player \<open>p\<close> bound to another socket.\<close>

definition rebound :: "string \<Rightarrow> nat \<Rightarrow> player \<Rightarrow> room \<Rightarrow> room" where
  "rebound sock k p r = r\<lparr>players := AList.update k (p\<lparr>socket := sock\<rparr>) (players r)\<rparr>"

subsection \<open>Example traces\<close>

text \<open>Three players take their seats and the first one leaves.\<close>

definition slot_reuse_ops :: "room_op list" where
  "slot_reuse_ops =
     [Create ''a'' (Some ''Ann''),
      Join ''b'' (Some ''Bob''),
      Join ''c'' (Some ''Cy''),
      Leave ''a'']"

text \<open>Player 2 places a bomb and disconnects; another player joins before the fuse runs out.\<close>

definition stale_owner_ops :: "room_op list" where
  "stale_owner_ops =
     [Create ''s1'' (Some ''Ann''),
      Join ''s2'' (Some ''Bob''),
      AutoStart 2000,
      Place 5000 2 512 384,
      Leave ''s2'',
      Join ''s3'' (Some ''Cy''),
      Detonate 8000 no_draws ''bomb_5000_2'']"

text \<open>Player 1 is hit twice, blows up the block, collects the health power-up that appears
  and is hit four more times.\<close>

definition negative_health_ops :: "room_op list" where
  "negative_health_ops =
     [Create ''s1'' (Some ''Ann''),
      Join ''s2'' (Some ''Bob''),
      AutoStart 2000,
      Place 3000 2 64 64,
      Detonate 6000 no_draws ''bomb_3000_2'',
      Place 7000 2 64 64,
      Detonate 10000 no_draws ''bomb_7000_2'',
      Place 11000 1 256 128,
      Detonate 14000 health_draw ''bomb_11000_1'',
      Pick 1 ''powerup_14000_0.5'',
      Place 15000 2 64 64,
      Detonate 18000 no_draws ''bomb_15000_2'',
      Place 19000 2 64 64,
      Detonate 22000 no_draws ''bomb_19000_2'',
      Place 23000 2 64 64,
      Detonate 26000 no_draws ''bomb_23000_2'',
      Place 27000 2 64 64,
      Detonate 30000 no_draws ''bomb_27000_2'']"

text \<open>Both players place a bomb, player 2 leaves, and the first bomb ends the game while the
  second one is still live.\<close>

definition late_fuse_ops :: "room_op list" where
  "late_fuse_ops =
     [Create ''s1'' (Some ''Ann''),
      Join ''s2'' (Some ''Bob''),
      AutoStart 2000,
      Place 3000 1 512 384,
      Place 4000 2 64 64,
      Leave ''s2'',
      Detonate 6000 no_draws ''bomb_3000_1'']"


text \<open>Two bombs side by side, with the timers of their fuses.\<close>

definition two_bombs :: room where
  "two_bombs =
     rm [pl 1 ''s1'' ''Ann'' 64 64 100 True 1, pl 2 ''s2'' ''Bob'' 960 64 100 True 1] Playing
        [bm ''bomb_3000_1'' 512 384 1 3000, bm ''bomb_4000_2'' 576 384 2 4000] [] []"

definition two_fuses :: "(nat \<times> string) list" where
  "two_fuses = [(6000, ''bomb_3000_1''), (7000, ''bomb_4000_2'')]"

text \<open>
  The standalone server after two players took their seats in room \<open>'r'\<close>, the game
  started and the first player's socket \<open>s1\<close> disconnected: a player as the standalone
  \<open>addPlayer\<close> makes it, the records that \<open>startGame\<close> wrote, and the tables.
\<close>

definition pl5 :: "nat \<Rightarrow> string \<Rightarrow> string \<Rightarrow> int \<Rightarrow> int \<Rightarrow> nat \<times> player" where
  "pl5 k sock nm x y = (k, (snd (pl k sock nm x y 100 True 0))\<lparr>bombPower := 5\<rparr>)"

definition rec_of :: "string \<Rightarrow> nat \<Rightarrow> string \<Rightarrow> string \<times> transition" where
  "rec_of sock k nm =
     (sock, \<lparr>trans_roomId = ''r'', trans_playerId = k, trans_playerName = nm,
             transitionStart = 2000\<rparr>)"

definition started_room :: "string \<Rightarrow> room" where
  "started_room sock1 =
     rm [pl5 1 sock1 ''Ann'' 64 64, pl5 2 ''s2'' ''Bob'' 960 64] Playing [] [] []"

definition after_drop :: standalone_server where
  "after_drop =
     \<lparr>gameRooms = [(''r'', started_room ''s1'')],
      playerSockets = [(''s2'', (''r'', 2))],
      transitioningPlayers = [rec_of ''s1'' 1 ''Ann'', rec_of ''s2'' 2 ''Bob'']\<rparr>"

definition rejoin_request :: joinData where
  "rejoin_request = \<lparr>data_roomId = ''r'', data_name = Some ''Ann'', data_playerId = None\<rparr>"

subsection \<open>Pending detonations\<close>

text \<open>
  The detonations that \<open>setTimeout\<close> holds for a room: pairs of a due time and a bomb id.
  The timer that is due first fires first, and timers due together fire in the order they
  were set. \<open>drain\<close> lets every pending detonation fire, with no other operation in
  between: each call of \<open>explodeBomb\<close> runs at the due time of its timer and sets a timer
  50 ms later for every bomb of its chain.
\<close>

fun pop_due :: "(nat \<times> string) list \<Rightarrow> ((nat \<times> string) \<times> (nat \<times> string) list) option" where
  "pop_due [] = None"
| "pop_due (t # ts) =
     (case pop_due ts of
        None \<Rightarrow> Some (t, [])
      | Some m \<Rightarrow> if fst t \<le> fst (fst m) then Some (t, ts) else Some (fst m, t # snd m))"

definition fire ::
  "spawn_draws \<Rightarrow> (string \<Rightarrow> bool) \<Rightarrow> (nat \<times> string) list \<times> room \<Rightarrow> (nat \<times> string) list \<times> room" where
  "fire rng online st =
     (case pop_due (fst st) of
        None \<Rightarrow> st
      | Some m \<Rightarrow>
          (snd m @ map (\<lambda>c. (fst (fst m) + 50, c))
                     (fst (snd (explodeBomb (fst (fst m)) rng online (snd (fst m)) (snd st)))),
           fst (explodeBomb (fst (fst m)) rng online (snd (fst m)) (snd st))))"

lemma pop_due_nonempty: "ts \<noteq> [] \<Longrightarrow> pop_due ts \<noteq> None"
  by (cases ts) (auto split: option.splits)

lemma pop_due_length: "pop_due ts = Some m \<Longrightarrow> Suc (length (snd m)) = length ts"
proof (induction ts arbitrary: m)
  case Nil
  then show ?case by simp
next
  case (Cons t ts)
  show ?case
  proof (cases "pop_due ts")
    case None
    then have "ts = []" using pop_due_nonempty by blast
    with Cons.prems None show ?thesis by auto
  next
    case (Some m')
    with Cons.prems Cons.IH[OF Some] show ?thesis by (auto split: if_splits)
  qed
qed

lemma delete_shortens: "map_of al k \<noteq> None \<Longrightarrow> length (AList.delete k al) < length al"
  by (induction al) (auto simp: less_Suc_eq_le AList.delete_eq intro: le_trans[OF length_filter_le])

lemma explodeBomb_absent:
  "map_of (bombs r) bombId = None \<Longrightarrow> explodeBomb_with dec now rng online bombId r = (r, [], [])"
  by (simp add: explodeBomb_with_def)

lemma explodeBomb_bombs:
  "map_of (bombs r) bombId = Some b \<Longrightarrow>
     bombs (fst (explodeBomb_with dec now rng online bombId r)) = AList.delete bombId (bombs r)"
  by (simp add: explodeBomb_with_def Let_def checkWinCondition_def)

function drain ::
  "spawn_draws \<Rightarrow> (string \<Rightarrow> bool) \<Rightarrow> (nat \<times> string) list \<times> room \<Rightarrow> room" where
  "drain rng online st = (if fst st = [] then snd st else drain rng online (fire rng online st))"
  by pat_completeness auto
termination
proof (relation "measures [\<lambda>(rng, online, st). length (bombs (snd st)),
                           \<lambda>(rng, online, st). length (fst st)]")
  show "wf (measures [\<lambda>(rng :: spawn_draws, online :: string \<Rightarrow> bool,
                        st :: (nat \<times> string) list \<times> room). length (bombs (snd st)),
                      \<lambda>(rng, online, st). length (fst st)])"
    by simp
next
  fix rng :: spawn_draws and online :: "string \<Rightarrow> bool" and st :: "(nat \<times> string) list \<times> room"
  assume "fst st \<noteq> []"
  then obtain m where m: "pop_due (fst st) = Some m"
    using pop_due_nonempty by blast
  show "((rng, online, fire rng online st), (rng, online, st))
        \<in> measures [\<lambda>(rng, online, st). length (bombs (snd st)),
                     \<lambda>(rng, online, st). length (fst st)]"
  proof (cases "map_of (bombs (snd st)) (snd (fst m))")
    case None
    then show ?thesis
      using m pop_due_length[OF m] by (simp add: fire_def explodeBomb_def explodeBomb_absent)
  next
    case (Some b)
    then show ?thesis
      using m delete_shortens[of "bombs (snd st)" "snd (fst m)"]
      by (simp add: fire_def explodeBomb_def explodeBomb_bombs)
  qed
qed

section \<open>Properties\<close>

declare explosion_ray.simps [simp del]
declare string_of_nat.simps [simp del]
declare grid_steps.simps [simp del]
declare drain.simps [simp del]

subsection \<open>Blast propagation\<close>

lemma ray_cells:
  "explosion_ray blocks x y pwr dir i =
     map (check_cell x y dir) [i .. i + int (length (explosion_ray blocks x y pwr dir i)) - 1]"
proof (induction blocks x y pwr dir i rule: explosion_ray.induct)
  case (1 blocks x y pwr dir i)
  show ?case
    apply (subst (1 2) explosion_ray.simps)
    using 1 apply (auto simp: upto_rec1)
    done
qed

lemma ray_length:
  "int (length (explosion_ray blocks x y pwr dir i)) \<le> max 0 (pwr + 1 - i)"
proof (induction blocks x y pwr dir i rule: explosion_ray.induct)
  case (1 blocks x y pwr dir i)
  show ?case
    apply (subst explosion_ray.simps)
    using 1 apply auto
    done
qed

lemma ray_inside:
  "list_all inside_margin (explosion_ray blocks x y pwr dir i)"
proof (induction blocks x y pwr dir i rule: explosion_ray.induct)
  case (1 blocks x y pwr dir i)
  show ?case
    apply (subst explosion_ray.simps)
    using 1 apply (simp add: inside_margin_def [abs_def])
    done
qed

lemma ray_unblocked:
  "list_all (\<lambda>c. \<not> holds_block blocks c) (butlast (explosion_ray blocks x y pwr dir i))"
proof (induction blocks x y pwr dir i rule: explosion_ray.induct)
  case (1 blocks x y pwr dir i)
  show ?case
    apply (subst explosion_ray.simps)
    using 1 apply (auto simp: holds_block_def)
    done
qed

lemma ray_stop:
  "i + int (length (explosion_ray blocks x y pwr dir i)) \<le> pwr \<Longrightarrow>
     (explosion_ray blocks x y pwr dir i \<noteq> [] \<and>
        holds_block blocks (last (explosion_ray blocks x y pwr dir i))) \<or>
     \<not> inside_margin (check_cell x y dir (i + int (length (explosion_ray blocks x y pwr dir i))))"
proof (induction blocks x y pwr dir i rule: explosion_ray.induct)
  case (1 blocks x y pwr dir i)
  show ?case
  proof (cases "i \<le> pwr")
    case False
    with 1(2) show ?thesis by (subst (asm) explosion_ray.simps) simp
  next
    case le: True
    show ?thesis
    proof (cases "out_of_bounds (fst (check_cell x y dir i)) (snd (check_cell x y dir i))")
      case True
      then show ?thesis using le
        by (subst (1 2 3) explosion_ray.simps) (simp add: inside_margin_def)
    next
      case inb: False
      show ?thesis
      proof (cases "blocked_at blocks (fst (check_cell x y dir i)) (snd (check_cell x y dir i))")
        case True
        then show ?thesis using le inb
          by (subst (1 2 3) explosion_ray.simps) (simp add: holds_block_def)
      next
        case False
        have eq: "explosion_ray blocks x y pwr dir i =
            check_cell x y dir i # explosion_ray blocks x y pwr dir (i + 1)"
          using le inb False by (subst explosion_ray.simps) simp
        have "i + 1 + int (length (explosion_ray blocks x y pwr dir (i + 1))) \<le> pwr"
          using 1(2) eq by simp
        from 1(1)[OF le inb False this] show ?thesis
          unfolding eq by (auto simp: ac_simps)
      qed
    qed
  qed
qed

text \<open>
  Claim C1, as the code has it. \<open>calculateExplosion\<close> returns the origin followed by one
  run of cells per direction. The run of a direction is made of the cells at steps
  \<open>1, 2, ..., n\<close> from the origin with \<open>n \<le> power\<close> (contiguous, starting next to the
  origin); all its cells are inside the 50-unit margin; none but the last holds a
  destructible block; and a run shorter than \<open>power\<close> ends on a cell that holds a block or
  just before a cell outside the margin. Every returned cell other than the origin is inside
  the margin. The origin itself is included without a bounds check.
\<close>

theorem calculateExplosion_propagation:
  "calculateExplosion blocks x y pwr =
      (x, y) # concat (map (\<lambda>dir. explosion_ray blocks x y pwr dir 1) directions)
   \<and> explosion_ray blocks x y pwr dir 1 =
      map (check_cell x y dir) [1 .. int (length (explosion_ray blocks x y pwr dir 1))]
   \<and> int (length (explosion_ray blocks x y pwr dir 1)) \<le> max 0 pwr
   \<and> list_all inside_margin (explosion_ray blocks x y pwr dir 1)
   \<and> list_all (\<lambda>c. \<not> holds_block blocks c) (butlast (explosion_ray blocks x y pwr dir 1))
   \<and> (int (length (explosion_ray blocks x y pwr dir 1)) < pwr \<longrightarrow>
        (explosion_ray blocks x y pwr dir 1 \<noteq> [] \<and>
           holds_block blocks (last (explosion_ray blocks x y pwr dir 1))) \<or>
        \<not> inside_margin
            (check_cell x y dir (1 + int (length (explosion_ray blocks x y pwr dir 1)))))
   \<and> list_all inside_margin (tl (calculateExplosion blocks x y pwr))"
proof -
  have tl: "list_all inside_margin (tl (calculateExplosion blocks x y pwr))"
    by (simp add: calculateExplosion_def directions_def ray_inside)
  have len: "int (length (explosion_ray blocks x y pwr dir 1)) \<le> max 0 pwr"
    using ray_length[of blocks x y pwr dir 1] by simp
  have cells: "explosion_ray blocks x y pwr dir 1 =
      map (check_cell x y dir) [1 .. int (length (explosion_ray blocks x y pwr dir 1))]"
    using ray_cells[of blocks x y pwr dir 1] by simp
  show ?thesis
    using tl len cells ray_inside[of blocks x y pwr dir 1] ray_unblocked[of blocks x y pwr dir 1]
      ray_stop[of 1 blocks x y pwr dir]
    by (simp add: calculateExplosion_def)
qed

lemma ray_east_example:
  "explosion_ray [the_block] 128 128 3 (1, 0) 1 = [(192, 128), (256, 128)]"
  by (simp add: explosion_ray.simps check_cell_def out_of_bounds_def blocked_at_def the_block_def)

text \<open>The statement at the origin (128, 128) with power 3 and the block at (228, 100): the
  run to the east has two cells, shorter than the power, and its last cell holds the block.\<close>

theorem calculateExplosion_propagation_witness:
  "int (length (explosion_ray [the_block] 128 128 3 (1, 0) 1)) < 3
   \<and> explosion_ray [the_block] 128 128 3 (1, 0) 1 = [(192, 128), (256, 128)]
   \<and> holds_block [the_block] (256, 128)
   \<and> ((explosion_ray [the_block] 128 128 3 (1, 0) 1 \<noteq> [] \<and>
         holds_block [the_block] (last (explosion_ray [the_block] 128 128 3 (1, 0) 1))) \<or>
        \<not> inside_margin (check_cell 128 128 (1, 0)
            (1 + int (length (explosion_ray [the_block] 128 128 3 (1, 0) 1)))))
   \<and> list_all inside_margin (tl (calculateExplosion [the_block] 128 128 3))"
proof -
  have short: "int (length (explosion_ray [the_block] 128 128 3 (1, 0) 1)) < 3"
    by (simp add: ray_east_example)
  have held: "holds_block [the_block] (256, 128)"
    by (simp add: holds_block_def blocked_at_def the_block_def)
  have inside: "list_all inside_margin (tl (calculateExplosion [the_block] 128 128 3))"
    using calculateExplosion_propagation[of "[the_block]" 128 128 3 "(1, 0)"] by blast
  have stop: "(explosion_ray [the_block] 128 128 3 (1, 0) 1 \<noteq> [] \<and>
         holds_block [the_block] (last (explosion_ray [the_block] 128 128 3 (1, 0) 1))) \<or>
        \<not> inside_margin (check_cell 128 128 (1, 0)
            (1 + int (length (explosion_ray [the_block] 128 128 3 (1, 0) 1))))"
    using short calculateExplosion_propagation[of "[the_block]" 128 128 3 "(1, 0)"] by blast
  show ?thesis
    using short held inside stop ray_east_example by blast
qed

text \<open>
  Claim C1 as stated fails where the origin itself is outside the margin. A player standing
  at the lower edge of the arena (\<open>y = 736\<close>, the largest value \<open>updatePlayer\<close> allows) who
  places a bomb on the spot gets a bomb at \<open>y = 768\<close>, and the blast of that bomb returns
  its origin, a cell outside the margin.
\<close>

theorem calculateExplosion_origin_counterexample:
  "snap_to_grid 736 = 768
   \<and> calculateExplosion [] 64 768 3 = [(64, 768), (64, 704), (64, 640), (64, 576)]
   \<and> \<not> inside_margin (64, 768)
   \<and> \<not> list_all inside_margin (calculateExplosion [] 64 768 3)"
  by (simp add: snap_to_grid_def calculateExplosion_def directions_def explosion_ray.simps
      check_cell_def out_of_bounds_def blocked_at_def inside_margin_def)

subsection \<open>Moving\<close>

lemma updatePlayer_nonzero:
  "map_of (players r) k = Some p \<Longrightarrow> isAlive p \<Longrightarrow> ux \<noteq> 0 \<Longrightarrow> uy \<noteq> 0 \<Longrightarrow>
     updatePlayer k ux uy r =
       (True, r\<lparr>players := AList.update k
          (p\<lparr>player_x := max 32 (min 992 ux), player_y := max 32 (min 736 uy)\<rparr>) (players r)\<rparr>)"
  by (simp add: updatePlayer_def js_or_def)

lemma updatePlayer_rejected:
  "map_of (players r) k = None \<or> (\<exists>p. map_of (players r) k = Some p \<and> \<not> isAlive p) \<Longrightarrow>
     updatePlayer k ux uy r = (False, r)"
  by (auto simp: updatePlayer_def)

text \<open>
  Claim C7 at a zero coordinate. Player 1 stands at (64, 64) and moves to the target
  (0, 100). The target clamped to the arena is (32, 100); \<open>updatePlayer\<close> accepts the move
  and leaves the player at \<open>x = 64\<close>, because \<open>updateData.x || player.x\<close> takes the zero
  for a missing coordinate.
\<close>

theorem updatePlayer_zero_target:
  "updatePlayer 1 0 100
     (rm [pl 1 ''s1'' ''Ann'' 64 64 100 True 0, pl 2 ''s2'' ''Bob'' 960 64 100 True 0] Playing [] [] [])
   = (True,
      rm [pl 1 ''s1'' ''Ann'' 64 100 100 True 0, pl 2 ''s2'' ''Bob'' 960 64 100 True 0] Playing [] [] [])
   \<and> max 32 (min (1024 - 32) (0::int)) = 32"
  by (simp add: updatePlayer_def js_or_def rm_def pl_def)

subsection \<open>Collecting power-ups\<close>

text \<open>The speed multiplier over five pick-ups, as the doubles compute it: 1.3, 1.6,
  1.9000000000000001, and then the cap 2.\<close>

lemma speed_sequence:
  "min (to_double (1 + double_0_3)) 2 = 5854679515581645 / 2 ^ 52"
  "min (to_double (5854679515581645 / 2 ^ 52 + double_0_3)) 2 = 7205759403792794 / 2 ^ 52"
  "min (to_double (7205759403792794 / 2 ^ 52 + double_0_3)) 2 = 8556839292003943 / 2 ^ 52"
  "min (to_double (8556839292003943 / 2 ^ 52 + double_0_3)) 2 = 2"
  "min (to_double (2 + double_0_3)) 2 = 2"
  by (simp_all add: to_double_def round_to_even_def double_0_3_def)

lemma round_to_even_floor: "\<lfloor>z\<rfloor> \<le> round_to_even z"
  by (simp add: round_to_even_def)

lemma speed_stays_in_range:
  assumes "1 \<le> s" and "s \<le> 2"
  shows "1 \<le> min (to_double (s + double_0_3)) 2 \<and> min (to_double (s + double_0_3)) 2 \<le> 2"
proof -
  have pos: "0 \<le> double_0_3"
    by (simp add: double_0_3_def)
  have "1 \<le> to_double (s + double_0_3)"
  proof (cases "s + double_0_3 < 2")
    case True
    have "(2::real) ^ 52 \<le> (s + double_0_3) * 2 ^ 52"
      using assms(1) pos by simp
    then have "(2::int) ^ 52 \<le> \<lfloor>(s + double_0_3) * 2 ^ 52\<rfloor>"
      by (simp add: le_floor_iff)
    then have "(2::int) ^ 52 \<le> round_to_even ((s + double_0_3) * 2 ^ 52)"
      using round_to_even_floor[of "(s + double_0_3) * 2 ^ 52"] by linarith
    then have "(2::real) ^ 52 \<le> of_int (round_to_even ((s + double_0_3) * 2 ^ 52))"
      by (metis of_int_le_iff of_int_numeral of_int_power)
    then show ?thesis using True by (simp add: to_double_def)
  next
    case False
    have "(2::real) ^ 51 \<le> (s + double_0_3) * 2 ^ 51"
      using assms(1) pos by simp
    then have "(2::int) ^ 51 \<le> \<lfloor>(s + double_0_3) * 2 ^ 51\<rfloor>"
      by (simp add: le_floor_iff)
    then have "(2::int) ^ 51 \<le> round_to_even ((s + double_0_3) * 2 ^ 51)"
      using round_to_even_floor[of "(s + double_0_3) * 2 ^ 51"] by linarith
    then have "(2::real) ^ 51 \<le> of_int (round_to_even ((s + double_0_3) * 2 ^ 51))"
      by (metis of_int_le_iff of_int_numeral of_int_power)
    then show ?thesis using False by (simp add: to_double_def)
  qed
  then show ?thesis by simp
qed

text \<open>
  Claim C9. For a present, alive player and an existing power-up, \<open>collectPowerUp\<close>
  succeeds, removes the power-up and applies the effect of its type to the player:
  \<open>speed\<close> adds 0.3 to the speed multiplier, capped at 2; \<open>bombs\<close> adds 1 to the bomb
  capacity and to the bombs tally; \<open>power\<close> adds 1 to the blast power and to the power
  tally; \<open>health\<close> adds 30 to the health, capped at 100. No position is read: it also
  succeeds with the player and the power-up moved to any coordinates.
\<close>

theorem collectPowerUp_no_proximity:
  assumes "map_of (powerUps r) powerUpId = Some pu"
    and "map_of (players r) playerId = Some p"
    and "isAlive p"
  shows "collectPowerUp playerId powerUpId r =
           (True,
            r\<lparr>players := AList.update playerId
                 (case powerUp_type pu of
                    SpeedUp \<Rightarrow>
                      p\<lparr>player_powerUps := (player_powerUps p)
                          \<lparr>tally_speed :=
                             min (to_double (tally_speed (player_powerUps p) + double_0_3)) 2\<rparr>\<rparr>
                  | BombsUp \<Rightarrow>
                      p\<lparr>bombCapacity := bombCapacity p + 1,
                        player_powerUps := (player_powerUps p)
                          \<lparr>tally_bombs := tally_bombs (player_powerUps p) + 1\<rparr>\<rparr>
                  | PowerUp \<Rightarrow>
                      p\<lparr>bombPower := bombPower p + 1,
                        player_powerUps := (player_powerUps p)
                          \<lparr>tally_power := tally_power (player_powerUps p) + 1\<rparr>\<rparr>
                  | HealthUp \<Rightarrow> p\<lparr>health := min (health p + 30) 100\<rparr>)
                 (players r),
              powerUps := AList.delete powerUpId (powerUps r)\<rparr>)
       \<and> fst (collectPowerUp playerId powerUpId
            (r\<lparr>players := AList.update playerId (p\<lparr>player_x := x, player_y := y\<rparr>) (players r),
               powerUps := AList.update powerUpId (pu\<lparr>powerUp_x := x', powerUp_y := y'\<rparr>)
                 (powerUps r)\<rparr>))"
  using assms
  by (cases "powerUp_type pu") (simp_all add: collectPowerUp_def applyPowerUp_def update_conv')

lemma example_power_up:
  "map_of (powerUps (rm ps Playing [] [pu_at ty] [])) ''powerup_14000_0.5'' = Some (snd (pu_at ty))"
  by (simp add: rm_def pu_at_def pu_health_def)

lemma example_player:
  "map_of (players (rm [pl 1 ''s1'' ''Ann'' 64 64 50 True 0, pl 2 ''s2'' ''Bob'' 960 64 100 True 0]
      Playing [] pus [])) 1 = Some (snd (pl 1 ''s1'' ''Ann'' 64 64 50 True 0))
   \<and> isAlive (snd (pl 1 ''s1'' ''Ann'' 64 64 50 True 0))"
  by (simp add: rm_def pl_def)

text \<open>
  Player 1 at the corner (64, 64), with health 50, capacity 1, blast power 3 and speed 1,
  collects the power-up that lies at (228, 100), 168 units away, once for each type: the
  speed becomes the double 1.3, the capacity 2, the blast power 4, the health 80.
\<close>

theorem collectPowerUp_no_proximity_witness:
  "collectPowerUp 1 ''powerup_14000_0.5''
     (rm [pl 1 ''s1'' ''Ann'' 64 64 50 True 0, pl 2 ''s2'' ''Bob'' 960 64 100 True 0] Playing []
        [pu_at SpeedUp] [])
   = (True,
      rm [(1, (snd (pl 1 ''s1'' ''Ann'' 64 64 50 True 0))
                \<lparr>player_powerUps :=
                   \<lparr>tally_speed = 5854679515581645 / 2 ^ 52, tally_bombs = 0, tally_power = 0\<rparr>\<rparr>),
          pl 2 ''s2'' ''Bob'' 960 64 100 True 0] Playing [] [] [])
   \<and> collectPowerUp 1 ''powerup_14000_0.5''
     (rm [pl 1 ''s1'' ''Ann'' 64 64 50 True 0, pl 2 ''s2'' ''Bob'' 960 64 100 True 0] Playing []
        [pu_at BombsUp] [])
   = (True,
      rm [(1, (snd (pl 1 ''s1'' ''Ann'' 64 64 50 True 0))
                \<lparr>bombCapacity := 2,
                 player_powerUps := \<lparr>tally_speed = 1, tally_bombs = 1, tally_power = 0\<rparr>\<rparr>),
          pl 2 ''s2'' ''Bob'' 960 64 100 True 0] Playing [] [] [])
   \<and> collectPowerUp 1 ''powerup_14000_0.5''
     (rm [pl 1 ''s1'' ''Ann'' 64 64 50 True 0, pl 2 ''s2'' ''Bob'' 960 64 100 True 0] Playing []
        [pu_at PowerUp] [])
   = (True,
      rm [(1, (snd (pl 1 ''s1'' ''Ann'' 64 64 50 True 0))
                \<lparr>bombPower := 4,
                 player_powerUps := \<lparr>tally_speed = 1, tally_bombs = 0, tally_power = 1\<rparr>\<rparr>),
          pl 2 ''s2'' ''Bob'' 960 64 100 True 0] Playing [] [] [])
   \<and> collectPowerUp 1 ''powerup_14000_0.5''
     (rm [pl 1 ''s1'' ''Ann'' 64 64 50 True 0, pl 2 ''s2'' ''Bob'' 960 64 100 True 0] Playing []
        [pu_at HealthUp] [])
   = (True,
      rm [pl 1 ''s1'' ''Ann'' 64 64 80 True 0, pl 2 ''s2'' ''Bob'' 960 64 100 True 0] Playing [] [] [])"
proof -
  note p = example_player[THEN conjunct1] and alive = example_player[THEN conjunct2]
  have speed: "collectPowerUp 1 ''powerup_14000_0.5''
     (rm [pl 1 ''s1'' ''Ann'' 64 64 50 True 0, pl 2 ''s2'' ''Bob'' 960 64 100 True 0] Playing []
        [pu_at SpeedUp] [])
   = (True,
      rm [(1, (snd (pl 1 ''s1'' ''Ann'' 64 64 50 True 0))
                \<lparr>player_powerUps :=
                   \<lparr>tally_speed = 5854679515581645 / 2 ^ 52, tally_bombs = 0, tally_power = 0\<rparr>\<rparr>),
          pl 2 ''s2'' ''Bob'' 960 64 100 True 0] Playing [] [] [])"
    using collectPowerUp_no_proximity[OF example_power_up p alive, of SpeedUp 0 0 0 0]
      speed_sequence(1)
    by (simp add: rm_def pl_def pu_at_def pu_health_def)
  have bombs: "collectPowerUp 1 ''powerup_14000_0.5''
     (rm [pl 1 ''s1'' ''Ann'' 64 64 50 True 0, pl 2 ''s2'' ''Bob'' 960 64 100 True 0] Playing []
        [pu_at BombsUp] [])
   = (True,
      rm [(1, (snd (pl 1 ''s1'' ''Ann'' 64 64 50 True 0))
                \<lparr>bombCapacity := 2,
                 player_powerUps := \<lparr>tally_speed = 1, tally_bombs = 1, tally_power = 0\<rparr>\<rparr>),
          pl 2 ''s2'' ''Bob'' 960 64 100 True 0] Playing [] [] [])"
    using collectPowerUp_no_proximity[OF example_power_up p alive, of BombsUp 0 0 0 0]
    by (simp add: rm_def pl_def pu_at_def pu_health_def)
  have power: "collectPowerUp 1 ''powerup_14000_0.5''
     (rm [pl 1 ''s1'' ''Ann'' 64 64 50 True 0, pl 2 ''s2'' ''Bob'' 960 64 100 True 0] Playing []
        [pu_at PowerUp] [])
   = (True,
      rm [(1, (snd (pl 1 ''s1'' ''Ann'' 64 64 50 True 0))
                \<lparr>bombPower := 4,
                 player_powerUps := \<lparr>tally_speed = 1, tally_bombs = 0, tally_power = 1\<rparr>\<rparr>),
          pl 2 ''s2'' ''Bob'' 960 64 100 True 0] Playing [] [] [])"
    using collectPowerUp_no_proximity[OF example_power_up p alive, of PowerUp 0 0 0 0]
    by (simp add: rm_def pl_def pu_at_def pu_health_def)
  have health: "collectPowerUp 1 ''powerup_14000_0.5''
     (rm [pl 1 ''s1'' ''Ann'' 64 64 50 True 0, pl 2 ''s2'' ''Bob'' 960 64 100 True 0] Playing []
        [pu_at HealthUp] [])
   = (True,
      rm [pl 1 ''s1'' ''Ann'' 64 64 80 True 0, pl 2 ''s2'' ''Bob'' 960 64 100 True 0] Playing [] [] [])"
    using collectPowerUp_no_proximity[OF example_power_up p alive, of HealthUp 0 0 0 0]
    by (simp add: rm_def pl_def pu_at_def pu_health_def)
  from speed bombs power health show ?thesis by (intro conjI)
qed

subsection \<open>Joining twice\<close>

text \<open>
  Claim C10. In \<open>server.js\<close>, a \<open>joinRoom\<close> request from a socket that \<open>playerSockets\<close>
  already binds to a room returns at once: the tables and every room are unchanged, no
  event is sent to anyone and no timer is set.
\<close>

theorem joinRoom_duplicate_ignored:
  "map_of (playerSockets s) sock = Some existingPlayerInfo \<Longrightarrow>
     joinRoom online sock d s = Inr (s, [], [])"
  by (simp add: joinRoom_def)

text \<open>Socket \<open>s1\<close>, seated in room \<open>r\<close> as player 1, asks to join room \<open>r\<close> again.\<close>

theorem joinRoom_duplicate_ignored_witness:
  "map_of [(''s1'', (''r'', 1 :: nat))] ''s1'' = Some (''r'', 1)
   \<and> joinRoom all_online ''s1''
        \<lparr>data_roomId = ''r'', data_name = Some ''Ann'', data_playerId = None\<rparr>
        \<lparr>gameRooms = [(''r'', rm [pl 1 ''s1'' ''Ann'' 64 64 100 True 0] Waiting [] [] [])],
         playerSockets = [(''s1'', (''r'', 1))]\<rparr>
      = Inr (\<lparr>gameRooms = [(''r'', rm [pl 1 ''s1'' ''Ann'' 64 64 100 True 0] Waiting [] [] [])],
              playerSockets = [(''s1'', (''r'', 1))]\<rparr>, [], [])"
proof -
  have bound: "map_of (playerSockets
      \<lparr>gameRooms = [(''r'', rm [pl 1 ''s1'' ''Ann'' 64 64 100 True 0] Waiting [] [] [])],
       playerSockets = [(''s1'', (''r'', 1))]\<rparr>) ''s1'' = Some (''r'', 1)"
    by simp
  show ?thesis
    using joinRoom_duplicate_ignored[OF bound, of all_online
        "\<lparr>data_roomId = ''r'', data_name = Some ''Ann'', data_playerId = None\<rparr>"]
    by simp
qed

subsection \<open>Evaluating the example traces\<close>

lemmas op_eval =
  step_room_def addPlayer_def addPlayer_with_def removePlayer_def canStartGame_def
  startGame_def placeBomb_def snap_to_grid_def string_of_nat.simps digit_char_def
  spawnPositions_def collectPowerUp_def applyPowerUp_def updatePlayer_def js_or_def
  AList.delete_eq Let_def rm_def pl_def bm_def all_online_def pu_health_def

lemmas blast_eval =
  step_room_def explodeBomb_def explodeBomb_with_def Let_def calculateExplosion_def
  directions_def explosion_ray.simps check_cell_def out_of_bounds_def blocked_at_def
  damagePlayer_def within_blast_def block_hit_def spawnPowerUps_def checkWinCondition_def
  broadcastToRoom_def AList.delete_eq rm_def pl_def bm_def all_online_def no_draws_def
  health_draw_def the_block_def pu_health_def

lemma layout_no_blocks: "initializeDestructibleBlocks no_blocks = []"
  by (simp add: initializeDestructibleBlocks_def no_blocks_def grid_steps.simps)

lemma layout_one_block: "initializeDestructibleBlocks one_block = [the_block]"
  by (simp add: initializeDestructibleBlocks_def one_block_def the_block_def grid_steps.simps
      tooClose_def corners_def indestructible_def)

lemma fresh_no_blocks: "GameRoom ''r'' 4 no_blocks = rm [] Waiting [] [] []"
  by (simp add: GameRoom_def rm_def layout_no_blocks)

lemma fresh_one_block: "GameRoom ''r'' 4 one_block = rm [] Waiting [] [] [the_block]"
  by (simp add: GameRoom_def rm_def layout_one_block)

lemma run_Nil: "run online [] r = r"
  by (simp add: run_def)

lemma run_Cons: "run online (op # ops) r = run online ops (step_room online op r)"
  by (simp add: run_def)

lemma run_snoc: "run online (ops @ [op]) r = step_room online op (run online ops r)"
  by (simp add: run_def)

lemma slot_reuse_step1:
  "step_room all_online (Create ''a'' (Some ''Ann''))
     (rm []
        Waiting [] [] [])
   = rm [pl 1 ''a'' ''Ann'' 64 64 100 True 0]
        Waiting [] [] []"
  by (simp add: op_eval)

lemma slot_reuse_step2:
  "step_room all_online (Join ''b'' (Some ''Bob''))
     (rm [pl 1 ''a'' ''Ann'' 64 64 100 True 0]
        Waiting [] [] [])
   = rm [pl 1 ''a'' ''Ann'' 64 64 100 True 0,
          pl 2 ''b'' ''Bob'' 960 64 100 True 0]
        Waiting [] [] []"
  by (simp add: op_eval)

lemma slot_reuse_step3:
  "step_room all_online (Join ''c'' (Some ''Cy''))
     (rm [pl 1 ''a'' ''Ann'' 64 64 100 True 0,
          pl 2 ''b'' ''Bob'' 960 64 100 True 0]
        Waiting [] [] [])
   = rm [pl 1 ''a'' ''Ann'' 64 64 100 True 0,
          pl 2 ''b'' ''Bob'' 960 64 100 True 0,
          pl 3 ''c'' ''Cy'' 64 704 100 True 0]
        Waiting [] [] []"
  by (simp add: op_eval)

lemma slot_reuse_step4:
  "step_room all_online (Leave ''a'')
     (rm [pl 1 ''a'' ''Ann'' 64 64 100 True 0,
          pl 2 ''b'' ''Bob'' 960 64 100 True 0,
          pl 3 ''c'' ''Cy'' 64 704 100 True 0]
        Waiting [] [] [])
   = rm [pl 2 ''b'' ''Bob'' 960 64 100 True 0,
          pl 3 ''c'' ''Cy'' 64 704 100 True 0]
        Waiting [] [] []"
  by (simp add: op_eval)

lemmas slot_reuse_steps =
  slot_reuse_step1 slot_reuse_step2 slot_reuse_step3 slot_reuse_step4

lemma stale_owner_step1:
  "step_room all_online (Create ''s1'' (Some ''Ann''))
     (rm []
        Waiting [] [] [])
   = rm [pl 1 ''s1'' ''Ann'' 64 64 100 True 0]
        Waiting [] [] []"
  by (simp add: op_eval)

lemma stale_owner_step2:
  "step_room all_online (Join ''s2'' (Some ''Bob''))
     (rm [pl 1 ''s1'' ''Ann'' 64 64 100 True 0]
        Waiting [] [] [])
   = rm [pl 1 ''s1'' ''Ann'' 64 64 100 True 0,
          pl 2 ''s2'' ''Bob'' 960 64 100 True 0]
        Waiting [] [] []"
  by (simp add: op_eval)

lemma stale_owner_step3:
  "step_room all_online (AutoStart 2000)
     (rm [pl 1 ''s1'' ''Ann'' 64 64 100 True 0,
          pl 2 ''s2'' ''Bob'' 960 64 100 True 0]
        Waiting [] [] [])
   = rm [pl 1 ''s1'' ''Ann'' 64 64 100 True 0,
          pl 2 ''s2'' ''Bob'' 960 64 100 True 0]
        Playing [] [] []"
  by (simp add: op_eval)

lemma stale_owner_step4:
  "step_room all_online (Place 5000 2 512 384)
     (rm [pl 1 ''s1'' ''Ann'' 64 64 100 True 0,
          pl 2 ''s2'' ''Bob'' 960 64 100 True 0]
        Playing [] [] [])
   = rm [pl 1 ''s1'' ''Ann'' 64 64 100 True 0,
          pl 2 ''s2'' ''Bob'' 960 64 100 True 1]
        Playing [bm ''bomb_5000_2'' 512 384 2 5000] [] []"
  by (simp add: op_eval)

lemma stale_owner_step5:
  "step_room all_online (Leave ''s2'')
     (rm [pl 1 ''s1'' ''Ann'' 64 64 100 True 0,
          pl 2 ''s2'' ''Bob'' 960 64 100 True 1]
        Playing [bm ''bomb_5000_2'' 512 384 2 5000] [] [])
   = rm [pl 1 ''s1'' ''Ann'' 64 64 100 True 0]
        Playing [bm ''bomb_5000_2'' 512 384 2 5000] [] []"
  by (simp add: op_eval)

lemma stale_owner_step6:
  "step_room all_online (Join ''s3'' (Some ''Cy''))
     (rm [pl 1 ''s1'' ''Ann'' 64 64 100 True 0]
        Playing [bm ''bomb_5000_2'' 512 384 2 5000] [] [])
   = rm [pl 1 ''s1'' ''Ann'' 64 64 100 True 0,
          pl 2 ''s3'' ''Cy'' 960 64 100 True 0]
        Playing [bm ''bomb_5000_2'' 512 384 2 5000] [] []"
  by (simp add: op_eval)

lemma stale_owner_step7:
  "step_room all_online (Detonate 8000 no_draws ''bomb_5000_2'')
     (rm [pl 1 ''s1'' ''Ann'' 64 64 100 True 0,
          pl 2 ''s3'' ''Cy'' 960 64 100 True 0]
        Playing [bm ''bomb_5000_2'' 512 384 2 5000] [] [])
   = rm [pl 1 ''s1'' ''Ann'' 64 64 100 True 0,
          pl 2 ''s3'' ''Cy'' 960 64 100 True (-1)]
        Playing [] [] []"
  by (simp add: blast_eval)

lemmas stale_owner_steps =
  stale_owner_step1 stale_owner_step2 stale_owner_step3 stale_owner_step4
  stale_owner_step5 stale_owner_step6 stale_owner_step7

lemma negative_health_step1:
  "step_room all_online (Create ''s1'' (Some ''Ann''))
     (rm []
        Waiting [] [] [the_block])
   = rm [pl 1 ''s1'' ''Ann'' 64 64 100 True 0]
        Waiting [] [] [the_block]"
  by (simp add: op_eval)

lemma negative_health_step2:
  "step_room all_online (Join ''s2'' (Some ''Bob''))
     (rm [pl 1 ''s1'' ''Ann'' 64 64 100 True 0]
        Waiting [] [] [the_block])
   = rm [pl 1 ''s1'' ''Ann'' 64 64 100 True 0,
          pl 2 ''s2'' ''Bob'' 960 64 100 True 0]
        Waiting [] [] [the_block]"
  by (simp add: op_eval)

lemma negative_health_step3:
  "step_room all_online (AutoStart 2000)
     (rm [pl 1 ''s1'' ''Ann'' 64 64 100 True 0,
          pl 2 ''s2'' ''Bob'' 960 64 100 True 0]
        Waiting [] [] [the_block])
   = rm [pl 1 ''s1'' ''Ann'' 64 64 100 True 0,
          pl 2 ''s2'' ''Bob'' 960 64 100 True 0]
        Playing [] [] [the_block]"
  by (simp add: op_eval)

lemma negative_health_step4:
  "step_room all_online (Place 3000 2 64 64)
     (rm [pl 1 ''s1'' ''Ann'' 64 64 100 True 0,
          pl 2 ''s2'' ''Bob'' 960 64 100 True 0]
        Playing [] [] [the_block])
   = rm [pl 1 ''s1'' ''Ann'' 64 64 100 True 0,
          pl 2 ''s2'' ''Bob'' 960 64 100 True 1]
        Playing [bm ''bomb_3000_2'' 64 64 2 3000] [] [the_block]"
  by (simp add: op_eval)

lemma negative_health_step5:
  "step_room all_online (Detonate 6000 no_draws ''bomb_3000_2'')
     (rm [pl 1 ''s1'' ''Ann'' 64 64 100 True 0,
          pl 2 ''s2'' ''Bob'' 960 64 100 True 1]
        Playing [bm ''bomb_3000_2'' 64 64 2 3000] [] [the_block])
   = rm [pl 1 ''s1'' ''Ann'' 64 64 75 True 0,
          pl 2 ''s2'' ''Bob'' 960 64 100 True 0]
        Playing [] [] [the_block]"
  by (simp add: blast_eval)

lemma negative_health_step6:
  "step_room all_online (Place 7000 2 64 64)
     (rm [pl 1 ''s1'' ''Ann'' 64 64 75 True 0,
          pl 2 ''s2'' ''Bob'' 960 64 100 True 0]
        Playing [] [] [the_block])
   = rm [pl 1 ''s1'' ''Ann'' 64 64 75 True 0,
          pl 2 ''s2'' ''Bob'' 960 64 100 True 1]
        Playing [bm ''bomb_7000_2'' 64 64 2 7000] [] [the_block]"
  by (simp add: op_eval)

lemma negative_health_step7:
  "step_room all_online (Detonate 10000 no_draws ''bomb_7000_2'')
     (rm [pl 1 ''s1'' ''Ann'' 64 64 75 True 0,
          pl 2 ''s2'' ''Bob'' 960 64 100 True 1]
        Playing [bm ''bomb_7000_2'' 64 64 2 7000] [] [the_block])
   = rm [pl 1 ''s1'' ''Ann'' 64 64 50 True 0,
          pl 2 ''s2'' ''Bob'' 960 64 100 True 0]
        Playing [] [] [the_block]"
  by (simp add: blast_eval)

lemma negative_health_step8:
  "step_room all_online (Place 11000 1 256 128)
     (rm [pl 1 ''s1'' ''Ann'' 64 64 50 True 0,
          pl 2 ''s2'' ''Bob'' 960 64 100 True 0]
        Playing [] [] [the_block])
   = rm [pl 1 ''s1'' ''Ann'' 64 64 50 True 1,
          pl 2 ''s2'' ''Bob'' 960 64 100 True 0]
        Playing [bm ''bomb_11000_1'' 256 128 1 11000] [] [the_block]"
  by (simp add: op_eval)

lemma negative_health_step9:
  "step_room all_online (Detonate 14000 health_draw ''bomb_11000_1'')
     (rm [pl 1 ''s1'' ''Ann'' 64 64 50 True 1,
          pl 2 ''s2'' ''Bob'' 960 64 100 True 0]
        Playing [bm ''bomb_11000_1'' 256 128 1 11000] [] [the_block])
   = rm [pl 1 ''s1'' ''Ann'' 64 64 50 True 0,
          pl 2 ''s2'' ''Bob'' 960 64 100 True 0]
        Playing [] [pu_health] []"
  by (simp add: blast_eval)

lemma negative_health_step10:
  "step_room all_online (Pick 1 ''powerup_14000_0.5'')
     (rm [pl 1 ''s1'' ''Ann'' 64 64 50 True 0,
          pl 2 ''s2'' ''Bob'' 960 64 100 True 0]
        Playing [] [pu_health] [])
   = rm [pl 1 ''s1'' ''Ann'' 64 64 80 True 0,
          pl 2 ''s2'' ''Bob'' 960 64 100 True 0]
        Playing [] [] []"
  by (simp add: op_eval)

lemma negative_health_step11:
  "step_room all_online (Place 15000 2 64 64)
     (rm [pl 1 ''s1'' ''Ann'' 64 64 80 True 0,
          pl 2 ''s2'' ''Bob'' 960 64 100 True 0]
        Playing [] [] [])
   = rm [pl 1 ''s1'' ''Ann'' 64 64 80 True 0,
          pl 2 ''s2'' ''Bob'' 960 64 100 True 1]
        Playing [bm ''bomb_15000_2'' 64 64 2 15000] [] []"
  by (simp add: op_eval)

lemma negative_health_step12:
  "step_room all_online (Detonate 18000 no_draws ''bomb_15000_2'')
     (rm [pl 1 ''s1'' ''Ann'' 64 64 80 True 0,
          pl 2 ''s2'' ''Bob'' 960 64 100 True 1]
        Playing [bm ''bomb_15000_2'' 64 64 2 15000] [] [])
   = rm [pl 1 ''s1'' ''Ann'' 64 64 55 True 0,
          pl 2 ''s2'' ''Bob'' 960 64 100 True 0]
        Playing [] [] []"
  by (simp add: blast_eval)

lemma negative_health_step13:
  "step_room all_online (Place 19000 2 64 64)
     (rm [pl 1 ''s1'' ''Ann'' 64 64 55 True 0,
          pl 2 ''s2'' ''Bob'' 960 64 100 True 0]
        Playing [] [] [])
   = rm [pl 1 ''s1'' ''Ann'' 64 64 55 True 0,
          pl 2 ''s2'' ''Bob'' 960 64 100 True 1]
        Playing [bm ''bomb_19000_2'' 64 64 2 19000] [] []"
  by (simp add: op_eval)

lemma negative_health_step14:
  "step_room all_online (Detonate 22000 no_draws ''bomb_19000_2'')
     (rm [pl 1 ''s1'' ''Ann'' 64 64 55 True 0,
          pl 2 ''s2'' ''Bob'' 960 64 100 True 1]
        Playing [bm ''bomb_19000_2'' 64 64 2 19000] [] [])
   = rm [pl 1 ''s1'' ''Ann'' 64 64 30 True 0,
          pl 2 ''s2'' ''Bob'' 960 64 100 True 0]
        Playing [] [] []"
  by (simp add: blast_eval)

lemma negative_health_step15:
  "step_room all_online (Place 23000 2 64 64)
     (rm [pl 1 ''s1'' ''Ann'' 64 64 30 True 0,
          pl 2 ''s2'' ''Bob'' 960 64 100 True 0]
        Playing [] [] [])
   = rm [pl 1 ''s1'' ''Ann'' 64 64 30 True 0,
          pl 2 ''s2'' ''Bob'' 960 64 100 True 1]
        Playing [bm ''bomb_23000_2'' 64 64 2 23000] [] []"
  by (simp add: op_eval)

lemma negative_health_step16:
  "step_room all_online (Detonate 26000 no_draws ''bomb_23000_2'')
     (rm [pl 1 ''s1'' ''Ann'' 64 64 30 True 0,
          pl 2 ''s2'' ''Bob'' 960 64 100 True 1]
        Playing [bm ''bomb_23000_2'' 64 64 2 23000] [] [])
   = rm [pl 1 ''s1'' ''Ann'' 64 64 5 True 0,
          pl 2 ''s2'' ''Bob'' 960 64 100 True 0]
        Playing [] [] []"
  by (simp add: blast_eval)

lemma negative_health_step17:
  "step_room all_online (Place 27000 2 64 64)
     (rm [pl 1 ''s1'' ''Ann'' 64 64 5 True 0,
          pl 2 ''s2'' ''Bob'' 960 64 100 True 0]
        Playing [] [] [])
   = rm [pl 1 ''s1'' ''Ann'' 64 64 5 True 0,
          pl 2 ''s2'' ''Bob'' 960 64 100 True 1]
        Playing [bm ''bomb_27000_2'' 64 64 2 27000] [] []"
  by (simp add: op_eval)

lemma negative_health_step18:
  "step_room all_online (Detonate 30000 no_draws ''bomb_27000_2'')
     (rm [pl 1 ''s1'' ''Ann'' 64 64 5 True 0,
          pl 2 ''s2'' ''Bob'' 960 64 100 True 1]
        Playing [bm ''bomb_27000_2'' 64 64 2 27000] [] [])
   = rm [pl 1 ''s1'' ''Ann'' 64 64 (-20) False 0,
          pl 2 ''s2'' ''Bob'' 960 64 100 True 0]
        Finished [] [] []"
  by (simp add: blast_eval)

lemmas negative_health_steps =
  negative_health_step1 negative_health_step2 negative_health_step3 negative_health_step4
  negative_health_step5 negative_health_step6 negative_health_step7 negative_health_step8
  negative_health_step9 negative_health_step10 negative_health_step11 negative_health_step12
  negative_health_step13 negative_health_step14 negative_health_step15 negative_health_step16
  negative_health_step17 negative_health_step18

lemma late_fuse_step1:
  "step_room all_online (Create ''s1'' (Some ''Ann''))
     (rm []
        Waiting [] [] [])
   = rm [pl 1 ''s1'' ''Ann'' 64 64 100 True 0]
        Waiting [] [] []"
  by (simp add: op_eval)

lemma late_fuse_step2:
  "step_room all_online (Join ''s2'' (Some ''Bob''))
     (rm [pl 1 ''s1'' ''Ann'' 64 64 100 True 0]
        Waiting [] [] [])
   = rm [pl 1 ''s1'' ''Ann'' 64 64 100 True 0,
          pl 2 ''s2'' ''Bob'' 960 64 100 True 0]
        Waiting [] [] []"
  by (simp add: op_eval)

lemma late_fuse_step3:
  "step_room all_online (AutoStart 2000)
     (rm [pl 1 ''s1'' ''Ann'' 64 64 100 True 0,
          pl 2 ''s2'' ''Bob'' 960 64 100 True 0]
        Waiting [] [] [])
   = rm [pl 1 ''s1'' ''Ann'' 64 64 100 True 0,
          pl 2 ''s2'' ''Bob'' 960 64 100 True 0]
        Playing [] [] []"
  by (simp add: op_eval)

lemma late_fuse_step4:
  "step_room all_online (Place 3000 1 512 384)
     (rm [pl 1 ''s1'' ''Ann'' 64 64 100 True 0,
          pl 2 ''s2'' ''Bob'' 960 64 100 True 0]
        Playing [] [] [])
   = rm [pl 1 ''s1'' ''Ann'' 64 64 100 True 1,
          pl 2 ''s2'' ''Bob'' 960 64 100 True 0]
        Playing [bm ''bomb_3000_1'' 512 384 1 3000] [] []"
  by (simp add: op_eval)

lemma late_fuse_step5:
  "step_room all_online (Place 4000 2 64 64)
     (rm [pl 1 ''s1'' ''Ann'' 64 64 100 True 1,
          pl 2 ''s2'' ''Bob'' 960 64 100 True 0]
        Playing [bm ''bomb_3000_1'' 512 384 1 3000] [] [])
   = rm [pl 1 ''s1'' ''Ann'' 64 64 100 True 1,
          pl 2 ''s2'' ''Bob'' 960 64 100 True 1]
        Playing [bm ''bomb_3000_1'' 512 384 1 3000, bm ''bomb_4000_2'' 64 64 2 4000] [] []"
  by (simp add: op_eval)

lemma late_fuse_step6:
  "step_room all_online (Leave ''s2'')
     (rm [pl 1 ''s1'' ''Ann'' 64 64 100 True 1,
          pl 2 ''s2'' ''Bob'' 960 64 100 True 1]
        Playing [bm ''bomb_3000_1'' 512 384 1 3000, bm ''bomb_4000_2'' 64 64 2 4000] [] [])
   = rm [pl 1 ''s1'' ''Ann'' 64 64 100 True 1]
        Playing [bm ''bomb_3000_1'' 512 384 1 3000, bm ''bomb_4000_2'' 64 64 2 4000] [] []"
  by (simp add: op_eval)

lemma late_fuse_step7:
  "step_room all_online (Detonate 6000 no_draws ''bomb_3000_1'')
     (rm [pl 1 ''s1'' ''Ann'' 64 64 100 True 1]
        Playing [bm ''bomb_3000_1'' 512 384 1 3000, bm ''bomb_4000_2'' 64 64 2 4000] [] [])
   = rm [pl 1 ''s1'' ''Ann'' 64 64 100 True 0]
        Finished [bm ''bomb_4000_2'' 64 64 2 4000] [] []"
  by (simp add: blast_eval)

lemmas late_fuse_steps =
  late_fuse_step1 late_fuse_step2 late_fuse_step3 late_fuse_step4
  late_fuse_step5 late_fuse_step6 late_fuse_step7

lemma slot_reuse_run:
  "run all_online slot_reuse_ops (GameRoom ''r'' 4 no_blocks) =
     rm [pl 2 ''b'' ''Bob'' 960 64 100 True 0, pl 3 ''c'' ''Cy'' 64 704 100 True 0]
        Waiting [] [] []"
  by (simp only: slot_reuse_ops_def fresh_no_blocks run_Nil run_Cons slot_reuse_steps)

lemma stale_owner_run:
  "run all_online stale_owner_ops (GameRoom ''r'' 4 no_blocks) =
     rm [pl 1 ''s1'' ''Ann'' 64 64 100 True 0, pl 2 ''s3'' ''Cy'' 960 64 100 True (-1)]
        Playing [] [] []"
  by (simp only: stale_owner_ops_def fresh_no_blocks run_Nil run_Cons stale_owner_steps)

lemma negative_health_run:
  "run all_online negative_health_ops (GameRoom ''r'' 4 one_block) =
     rm [pl 1 ''s1'' ''Ann'' 64 64 (-20) False 0, pl 2 ''s2'' ''Bob'' 960 64 100 True 0]
        Finished [] [] []"
  by (simp only: negative_health_ops_def fresh_one_block run_Nil run_Cons negative_health_steps)

lemma late_fuse_run:
  "run all_online late_fuse_ops (GameRoom ''r'' 4 no_blocks) =
     rm [pl 1 ''s1'' ''Ann'' 64 64 100 True 0] Finished [bm ''bomb_4000_2'' 64 64 2 4000] [] []"
  by (simp only: late_fuse_ops_def fresh_no_blocks run_Nil run_Cons late_fuse_steps)

subsection \<open>Association lists\<close>

lemma in_update: "e \<in> set (AList.update k v al) \<Longrightarrow> e = (k, v) \<or> e \<in> set al"
  by (induction al) (auto split: if_splits)

lemma in_delete: "e \<in> set (AList.delete k al) \<Longrightarrow> e \<in> set al"
  by (simp add: AList.delete_eq)

lemma map_of_map_values:
  "map_of (map (\<lambda>kp. (fst kp, f (snd kp))) al) k = map_option f (map_of al k)"
  by (induction al) auto

subsection \<open>Slots\<close>

lemma removePlayer_keeps_others:
  "removePlayer sock r = (Some k, r') \<Longrightarrow> k' \<noteq> k \<Longrightarrow>
     map_of (players r') k' = map_of (players r) k'"
  by (auto simp: removePlayer_def delete_conv' split: option.splits)

lemma addPlayer_slot:
  "addPlayer sock nm r = Inr (Some (p, r')) \<Longrightarrow>
     player_id p = length (players r) + 1 \<and>
     players r' = AList.update (length (players r) + 1) p (players r)"
  by (auto simp: addPlayer_def addPlayer_with_def Let_def split: if_splits)

lemma removePlayer_none:
  "removePlayer sock r = (None, r') \<Longrightarrow> r' = r"
  by (auto simp: removePlayer_def split: option.splits)

text \<open>
  Claim C2 at a join that follows a leave. Ann, Bob and Cy hold the slots 1, 2 and 3; Ann
  leaves. The next \<open>addPlayer\<close> computes the slot \<open>players.size + 1 = 3\<close>, the number Cy
  holds, and \<open>players.set\<close> stores the newcomer in Cy's place: the room then seats Bob and
  the newcomer, and Cy is gone.
\<close>

theorem addPlayer_reuses_slot:
  "run all_online slot_reuse_ops (GameRoom ''r'' 4 no_blocks) =
     rm [pl 2 ''b'' ''Bob'' 960 64 100 True 0, pl 3 ''c'' ''Cy'' 64 704 100 True 0]
        Waiting [] [] []
   \<and> addPlayer ''d'' None
       (rm [pl 2 ''b'' ''Bob'' 960 64 100 True 0, pl 3 ''c'' ''Cy'' 64 704 100 True 0]
           Waiting [] [] [])
     = Inr (Some (snd (pl 3 ''d'' ''Player 3'' 64 704 100 True 0),
                  rm [pl 2 ''b'' ''Bob'' 960 64 100 True 0,
                      pl 3 ''d'' ''Player 3'' 64 704 100 True 0] Waiting [] [] []))"
proof -
  have "addPlayer ''d'' None
       (rm [pl 2 ''b'' ''Bob'' 960 64 100 True 0, pl 3 ''c'' ''Cy'' 64 704 100 True 0]
           Waiting [] [] [])
     = Inr (Some (snd (pl 3 ''d'' ''Player 3'' 64 704 100 True 0),
                  rm [pl 2 ''b'' ''Bob'' 960 64 100 True 0,
                      pl 3 ''d'' ''Player 3'' 64 704 100 True 0] Waiting [] [] []))"
    by (simp add: op_eval)
  with slot_reuse_run show ?thesis by simp
qed

subsection \<open>Live-bomb count\<close>

lemma explodeBomb_standalone_floor:
  assumes "map_of (bombs r) bombId = Some b"
    and "map_of (players r) (owner b) = Some ownr"
  shows "\<exists>p. map_of (players (fst (explodeBomb_standalone now rng online bombId r))) (owner b)
               = Some p \<and> 0 \<le> bombCount p"
proof -
  let ?areas = "calculateExplosion (destructibleBlocks r) (bomb_x b) (bomb_y b) (bomb_power b)"
  let ?o = "ownr\<lparr>bombCount := max 0 (bombCount ownr - 1)\<rparr>"
  have "players (fst (explodeBomb_standalone now rng online bombId r)) =
      map (\<lambda>kp. (fst kp, damagePlayer ?areas (snd kp))) (AList.update (owner b) ?o (players r))"
    using assms
    by (simp add: explodeBomb_standalone_def explodeBomb_with_def Let_def checkWinCondition_def)
  then have "map_of (players (fst (explodeBomb_standalone now rng online bombId r))) (owner b)
      = Some (damagePlayer ?areas ?o)"
    by (simp add: map_of_map_values update_conv')
  moreover have "0 \<le> bombCount (damagePlayer ?areas ?o)"
    by (simp add: damagePlayer_def)
  ultimately show ?thesis by blast
qed

text \<open>
  Claim C6 in \<open>server.js\<close>. Bob (slot 2) places a bomb and disconnects; Cy joins and gets
  slot 2, with no live bomb. When the fuse runs out, \<open>explodeBomb\<close> finds Cy under the
  bomb's owner slot and \<open>owner.bombCount--\<close> takes Cy's count from 0 to -1. The standalone
  server's \<open>Math.max(0, owner.bombCount - 1)\<close> leaves 0 at the same detonation.
\<close>

theorem explodeBomb_negative_bombCount:
  "run all_online stale_owner_ops (GameRoom ''r'' 4 no_blocks) =
     rm [pl 1 ''s1'' ''Ann'' 64 64 100 True 0, pl 2 ''s3'' ''Cy'' 960 64 100 True (-1)]
        Playing [] [] []
   \<and> map_of (players (run all_online stale_owner_ops (GameRoom ''r'' 4 no_blocks))) 2
       = Some (snd (pl 2 ''s3'' ''Cy'' 960 64 100 True (-1)))
   \<and> bombCount (snd (pl 2 ''s3'' ''Cy'' 960 64 100 True (-1))) = - 1
   \<and> fst (explodeBomb_standalone 8000 no_draws all_online ''bomb_5000_2''
        (rm [pl 1 ''s1'' ''Ann'' 64 64 100 True 0, pl 2 ''s3'' ''Cy'' 960 64 100 True 0]
            Playing [bm ''bomb_5000_2'' 512 384 2 5000] [] []))
     = rm [pl 1 ''s1'' ''Ann'' 64 64 100 True 0, pl 2 ''s3'' ''Cy'' 960 64 100 True 0]
          Playing [] [] []"
proof -
  have seat: "map_of (players (run all_online stale_owner_ops (GameRoom ''r'' 4 no_blocks))) 2
       = Some (snd (pl 2 ''s3'' ''Cy'' 960 64 100 True (-1)))"
    by (simp add: stale_owner_run) (simp add: rm_def pl_def)
  have count: "bombCount (snd (pl 2 ''s3'' ''Cy'' 960 64 100 True (-1))) = - 1"
    by (simp add: pl_def)
  have sibling: "fst (explodeBomb_standalone 8000 no_draws all_online ''bomb_5000_2''
        (rm [pl 1 ''s1'' ''Ann'' 64 64 100 True 0, pl 2 ''s3'' ''Cy'' 960 64 100 True 0]
            Playing [bm ''bomb_5000_2'' 512 384 2 5000] [] []))
     = rm [pl 1 ''s1'' ''Ann'' 64 64 100 True 0, pl 2 ''s3'' ''Cy'' 960 64 100 True 0]
          Playing [] [] []"
    by (simp add: explodeBomb_standalone_def blast_eval)
  from stale_owner_run seat count sibling show ?thesis by (intro conjI)
qed

subsection \<open>Health\<close>

lemma damage_arith:
  fixes h :: int
  assumes "h mod 5 = 0" and "5 \<le> h" and "h \<le> 100"
  shows "(h - 25) mod 5 = 0" and "- 20 \<le> h - 25" and "h - 25 \<le> 100"
    and "\<not> h - 25 \<le> 0 \<Longrightarrow> 5 \<le> h - 25"
  using assms by presburger+

lemma heal_arith:
  fixes h :: int
  assumes "h mod 5 = 0" and "5 \<le> h" and "h \<le> 100"
  shows "min (h + 30) 100 mod 5 = 0" and "5 \<le> min (h + 30) 100" and "min (h + 30) 100 \<le> 100"
  using assms by (auto simp: min_def)

lemma damagePlayer_ok: "health_ok p \<Longrightarrow> health_ok (damagePlayer areas p)"
  using damage_arith[of "health p"]
  by (auto simp: health_ok_def damagePlayer_def split: if_splits)

lemma applyPowerUp_ok: "health_ok p \<Longrightarrow> isAlive p \<Longrightarrow> health_ok (applyPowerUp ty p)"
  using heal_arith[of "health p"]
  by (cases ty) (auto simp: health_ok_def applyPowerUp_def)

lemma explodeBomb_players_ok:
  assumes "\<forall>e \<in> set (players r). health_ok (snd e)"
  shows "\<forall>e \<in> set (players (fst (explodeBomb_with dec now rng online b r))). health_ok (snd e)"
proof (cases "map_of (bombs r) b")
  case None
  then show ?thesis using assms by (simp add: explodeBomb_with_def)
next
  case (Some bomb)
  define players1 where "players1 =
     (case map_of (players r) (owner bomb) of
        None \<Rightarrow> players r
      | Some ownr \<Rightarrow> AList.update (owner bomb) (ownr\<lparr>bombCount := dec (bombCount ownr)\<rparr>) (players r))"
  have p1: "\<forall>e \<in> set players1. health_ok (snd e)"
  proof (cases "map_of (players r) (owner bomb)")
    case None
    then show ?thesis using assms by (simp add: players1_def)
  next
    case (Some ownr)
    then have "health_ok ownr" using assms map_of_SomeD by fastforce
    then have "health_ok (ownr\<lparr>bombCount := dec (bombCount ownr)\<rparr>)"
      by (simp add: health_ok_def)
    then show ?thesis using assms Some in_update by (fastforce simp: players1_def)
  qed
  have "players (fst (explodeBomb_with dec now rng online b r)) =
      map (\<lambda>kp. (fst kp, damagePlayer
        (calculateExplosion (destructibleBlocks r) (bomb_x bomb) (bomb_y bomb) (bomb_power bomb))
        (snd kp))) players1"
    using Some by (simp add: explodeBomb_with_def Let_def checkWinCondition_def players1_def)
  then show ?thesis using p1 damagePlayer_ok by auto
qed

lemma step_room_health:
  assumes "\<forall>e \<in> set (players r). health_ok (snd e)"
  shows "\<forall>e \<in> set (players (step_room online op r)). health_ok (snd e)"
proof (cases op)
  case (Create sock nm)
  then show ?thesis using assms
    by (auto simp: step_room_def addPlayer_def addPlayer_with_def Let_def health_ok_def
        dest!: in_update split: if_splits)
next
  case (Join sock nm)
  then show ?thesis using assms
    by (auto simp: step_room_def addPlayer_def addPlayer_with_def Let_def health_ok_def
        dest!: in_update split: if_splits)
next
  case (Leave sock)
  then show ?thesis using assms
    by (auto simp: step_room_def removePlayer_def dest!: in_delete split: option.splits)
next
  case (AutoStart now)
  then show ?thesis using assms by (simp add: step_room_def startGame_def)
next
  case (Move sock k ux uy)
  show ?thesis
  proof (cases "map_of (players r) k")
    case None
    then show ?thesis using assms Move by (simp add: step_room_def updatePlayer_def)
  next
    case (Some p)
    then have "health_ok p" using assms map_of_SomeD by fastforce
    then have "health_ok (p\<lparr>player_x := a, player_y := b\<rparr>)" for a b
      by (simp add: health_ok_def)
    then show ?thesis using assms Move Some
      by (auto simp: step_room_def updatePlayer_def dest!: in_update)
  qed
next
  case (Place now k x y)
  show ?thesis
  proof (cases "map_of (players r) k")
    case None
    then show ?thesis using assms Place by (simp add: step_room_def placeBomb_def)
  next
    case (Some p)
    then have "health_ok p" using assms map_of_SomeD by fastforce
    then have "health_ok (p\<lparr>bombCount := c\<rparr>)" for c
      by (simp add: health_ok_def)
    then show ?thesis using assms Place Some
      by (auto simp: step_room_def placeBomb_def Let_def dest!: in_update)
  qed
next
  case (Pick k pu)
  show ?thesis
  proof (cases "map_of (players r) k")
    case None
    then show ?thesis using assms Pick
      by (simp add: step_room_def collectPowerUp_def split: option.splits)
  next
    case (Some p)
    then have "health_ok p" using assms map_of_SomeD by fastforce
    then have "isAlive p \<Longrightarrow> health_ok (applyPowerUp ty p)" for ty
      by (simp add: applyPowerUp_ok)
    then show ?thesis using assms Pick Some
      by (auto simp: step_room_def collectPowerUp_def dest!: in_update split: option.splits)
  qed
next
  case (Detonate now rng b)
  then show ?thesis
    using explodeBomb_players_ok[OF assms, of "\<lambda>c. c - 1" now rng online b]
    by (simp add: step_room_def explodeBomb_def)
next
  case (StartEcho snapshot)
  then show ?thesis using assms by (simp add: step_room_def)
next
  case SyncTick
  then show ?thesis using assms by (simp add: step_room_def)
qed

lemma run_health:
  "\<forall>e \<in> set (players (run online ops (GameRoom rid maxP keep))). health_ok (snd e)"
proof (induction ops rule: rev_induct)
  case Nil
  show ?case by (simp add: run_Nil GameRoom_def)
next
  case (snoc op ops)
  then show ?case unfolding run_snoc by (rule step_room_health)
qed

text \<open>
  Claim C5, as the code has it. In every room that a list of operations produces from a
  newly constructed one, every player's health is a multiple of 5 in \<open>[-20, 100]\<close>; it
  lies in \<open>[5, 100]\<close> while the player is alive and in \<open>[-20, 0]\<close> once the player is dead.
  The health power-up never takes it above 100; the blast takes 25 from a living player
  without a floor at zero.
\<close>

theorem health_range:
  assumes "(k, p) \<in> set (players (run online ops (GameRoom rid maxP keep)))"
  shows "- 20 \<le> health p \<and> health p \<le> 100 \<and> health p mod 5 = 0
         \<and> (isAlive p \<longrightarrow> 5 \<le> health p) \<and> (\<not> isAlive p \<longrightarrow> health p \<le> 0)"
proof -
  have "health_ok p"
    using run_health[of online ops rid maxP keep] assms by fastforce
  then show ?thesis
    by (auto simp: health_ok_def split: if_splits)
qed

text \<open>The statement at the end of the trace in which player 1 is hit six times.\<close>

theorem health_range_witness:
  "(1, snd (pl 1 ''s1'' ''Ann'' 64 64 (-20) False 0))
        \<in> set (players (run all_online negative_health_ops (GameRoom ''r'' 4 one_block)))
   \<and> - 20 \<le> health (snd (pl 1 ''s1'' ''Ann'' 64 64 (-20) False 0))
   \<and> health (snd (pl 1 ''s1'' ''Ann'' 64 64 (-20) False 0)) \<le> 100"
proof -
  have seated: "(1, snd (pl 1 ''s1'' ''Ann'' 64 64 (-20) False 0))
        \<in> set (players (run all_online negative_health_ops (GameRoom ''r'' 4 one_block)))"
    by (simp add: negative_health_run) (simp add: rm_def pl_def)
  from health_range[OF seated] seated show ?thesis by blast
qed

text \<open>
  Claim C5 as stated fails below zero. Ann is hit twice (health 50), collects a health
  power-up (80) and is hit four more times: 55, 30, 5 and then -20.
\<close>

theorem health_below_zero_counterexample:
  "run all_online negative_health_ops (GameRoom ''r'' 4 one_block) =
     rm [pl 1 ''s1'' ''Ann'' 64 64 (-20) False 0, pl 2 ''s2'' ''Bob'' 960 64 100 True 0]
        Finished [] [] []
   \<and> health (snd (pl 1 ''s1'' ''Ann'' 64 64 (-20) False 0)) = - 20
   \<and> \<not> 0 \<le> health (snd (pl 1 ''s1'' ''Ann'' 64 64 (-20) False 0))"
proof -
  have "health (snd (pl 1 ''s1'' ''Ann'' 64 64 (-20) False 0)) = - 20"
    by (simp add: pl_def)
  with negative_health_run show ?thesis by simp
qed

subsection \<open>Phases\<close>

lemma explodeBomb_gameState:
  "gameState (fst (explodeBomb_with dec now rng online b r)) = gameState r \<or>
   gameState (fst (explodeBomb_with dec now rng online b r)) = Finished"
  by (simp add: explodeBomb_with_def Let_def checkWinCondition_def split: option.splits)

lemma step_room_gameState:
  "gameState (step_room online op r) = gameState r
   \<or> (gameState r = Waiting \<and> gameState (step_room online op r) = Playing)
   \<or> gameState (step_room online op r) = Finished"
proof (cases op)
  case (Detonate now rng b)
  then show ?thesis
    using explodeBomb_gameState[of "\<lambda>c. c - 1" now rng online b r]
    by (auto simp: step_room_def explodeBomb_def)
next
  case (AutoStart now)
  then show ?thesis by (simp add: step_room_def startGame_def canStartGame_def)
qed (auto simp: step_room_def addPlayer_def addPlayer_with_def Let_def removePlayer_def
      updatePlayer_def placeBomb_def collectPowerUp_def split: option.splits if_splits)

text \<open>
  Claim C4, as the code has it. Once the phase of a room is \<open>finished\<close>, the intents
  \<open>playerMove\<close>, \<open>placeBomb\<close> and \<open>collectPowerUp\<close>, the auto-start timer and the sync
  interval leave the room unchanged and send nothing, and every operation leaves the phase
  \<open>finished\<close>. In any phase, no operation moves the phase backwards along
  \<open>waiting\<close>, \<open>playing\<close>, \<open>finished\<close>.
\<close>

theorem finished_rejects_intents:
  "(gameState r = Finished \<longrightarrow>
      room_step online (Move sock k ux uy) r = (r, [])
    \<and> room_step online (Place now k x y) r = (r, [])
    \<and> room_step online (Pick k powerUpId) r = (r, [])
    \<and> room_step online (AutoStart now) r = (r, [])
    \<and> room_step online SyncTick r = (r, [])
    \<and> gameState (step_room online op r) = Finished)
   \<and> phase_rank (gameState r) \<le> phase_rank (gameState (step_room online op r))"
  using step_room_gameState[of online op r]
  by (auto simp: canStartGame_def phase_rank_def split: gameState.splits)

text \<open>The statement for the room in which the first bomb has ended the game: Ann's move
  and her next bomb are turned down.\<close>

theorem finished_rejects_intents_witness:
  "gameState (rm [pl 1 ''s1'' ''Ann'' 64 64 100 True 0] Finished
                 [bm ''bomb_4000_2'' 64 64 2 4000] [] []) = Finished
   \<and> room_step all_online (Move ''s1'' 1 500 300)
        (rm [pl 1 ''s1'' ''Ann'' 64 64 100 True 0] Finished [bm ''bomb_4000_2'' 64 64 2 4000] [] [])
     = (rm [pl 1 ''s1'' ''Ann'' 64 64 100 True 0] Finished [bm ''bomb_4000_2'' 64 64 2 4000] [] [],
        [])
   \<and> room_step all_online (Place 6500 1 512 384)
        (rm [pl 1 ''s1'' ''Ann'' 64 64 100 True 0] Finished [bm ''bomb_4000_2'' 64 64 2 4000] [] [])
     = (rm [pl 1 ''s1'' ''Ann'' 64 64 100 True 0] Finished [bm ''bomb_4000_2'' 64 64 2 4000] [] [],
        [])"
proof -
  let ?r = "rm [pl 1 ''s1'' ''Ann'' 64 64 100 True 0] Finished
               [bm ''bomb_4000_2'' 64 64 2 4000] [] []"
  have fin: "gameState ?r = Finished"
    by (simp add: rm_def)
  from fin finished_rejects_intents[of ?r all_online "''s1''" 1 500 300 6500 512 384]
  show ?thesis by blast
qed

lemma late_fuse_detonation:
  "room_step all_online (Detonate 7000 no_draws ''bomb_4000_2'')
     (rm [pl 1 ''s1'' ''Ann'' 64 64 100 True 0] Finished [bm ''bomb_4000_2'' 64 64 2 4000] [] [])
   = (rm [pl 1 ''s1'' ''Ann'' 64 64 75 True 0] Finished [] [] [],
      [(ToSocket ''s1'',
        BombExploded ''bomb_4000_2''
          [(64, 64), (128, 64), (192, 64), (256, 64), (64, 128), (64, 192), (64, 256)] []
          [snd (pl 1 ''s1'' ''Ann'' 64 64 75 True 0)] []),
       (ToSocket ''s1'', GameOver (Some 1) [snd (pl 1 ''s1'' ''Ann'' 64 64 75 True 0)])])"
  by (simp add: blast_eval)

lemma late_join:
  "step_room all_online (Join ''s3'' None)
     (rm [pl 1 ''s1'' ''Ann'' 64 64 100 True 0] Finished [bm ''bomb_4000_2'' 64 64 2 4000] [] [])
   = rm [pl 1 ''s1'' ''Ann'' 64 64 100 True 0, pl 2 ''s3'' ''Player 2'' 960 64 100 True 0]
        Finished [bm ''bomb_4000_2'' 64 64 2 4000] [] []"
  by (simp add: op_eval)

lemma late_leave:
  "step_room all_online (Leave ''s1'')
     (rm [pl 1 ''s1'' ''Ann'' 64 64 100 True 0] Finished [bm ''bomb_4000_2'' 64 64 2 4000] [] [])
   = rm [] Finished [bm ''bomb_4000_2'' 64 64 2 4000] [] []"
  by (simp add: op_eval)

text \<open>
  Claim C4 as stated fails for the operations that do not test the phase. Ann and Bob each
  place a bomb, Bob leaves, and Ann's bomb ends the game with Ann as the only player
  alive. In the finished room the fuse of Bob's bomb still runs out: \<open>explodeBomb\<close> removes
  the bomb, takes 25 health from Ann and sends \<open>bombExploded\<close> and a second \<open>gameOver\<close>.
  A \<open>joinRoom\<close> for the finished room still seats a new player.
\<close>

theorem finished_room_mutates_counterexample:
  "run all_online late_fuse_ops (GameRoom ''r'' 4 no_blocks) =
     rm [pl 1 ''s1'' ''Ann'' 64 64 100 True 0] Finished [bm ''bomb_4000_2'' 64 64 2 4000] [] []
   \<and> gameState (run all_online late_fuse_ops (GameRoom ''r'' 4 no_blocks)) = Finished
   \<and> room_step all_online (Detonate 7000 no_draws ''bomb_4000_2'')
        (run all_online late_fuse_ops (GameRoom ''r'' 4 no_blocks))
     = (rm [pl 1 ''s1'' ''Ann'' 64 64 75 True 0] Finished [] [] [],
        [(ToSocket ''s1'',
          BombExploded ''bomb_4000_2''
            [(64, 64), (128, 64), (192, 64), (256, 64), (64, 128), (64, 192), (64, 256)] []
            [snd (pl 1 ''s1'' ''Ann'' 64 64 75 True 0)] []),
         (ToSocket ''s1'', GameOver (Some 1) [snd (pl 1 ''s1'' ''Ann'' 64 64 75 True 0)])])
   \<and> step_room all_online (Join ''s3'' None)
        (run all_online late_fuse_ops (GameRoom ''r'' 4 no_blocks))
     = rm [pl 1 ''s1'' ''Ann'' 64 64 100 True 0, pl 2 ''s3'' ''Player 2'' 960 64 100 True 0]
          Finished [bm ''bomb_4000_2'' 64 64 2 4000] [] []"
proof -
  have fin: "gameState (run all_online late_fuse_ops (GameRoom ''r'' 4 no_blocks)) = Finished"
    by (simp add: late_fuse_run) (simp add: rm_def)
  show ?thesis
    using fin late_fuse_detonation late_join by (simp add: late_fuse_run)
qed

subsection \<open>Chain reactions\<close>

lemma pop_due_set: "pop_due ts = Some m \<Longrightarrow> set ts = insert (fst m) (set (snd m))"
proof (induction ts arbitrary: m)
  case Nil
  then show ?case by simp
next
  case (Cons t ts)
  show ?case
  proof (cases "pop_due ts")
    case None
    then have "ts = []" using pop_due_nonempty by blast
    with Cons.prems None show ?thesis by auto
  next
    case (Some m')
    have IH: "set ts = insert (fst m') (set (snd m'))"
      by (rule Cons.IH[OF Some])
    show ?thesis
    proof (cases "fst t \<le> fst (fst m')")
      case True
      then have "m = (t, ts)" using Cons.prems Some by simp
      then show ?thesis by simp
    next
      case False
      then have "m = (fst m', t # snd m')" using Cons.prems Some by simp
      then show ?thesis using IH by auto
    qed
  qed
qed

lemma fire_idle: "fst st = [] \<Longrightarrow> fire rng online st = st"
  by (simp add: fire_def)

lemma fire_keeps_pending:
  assumes ne: "fst st \<noteq> []"
    and inv: "fst ` set (bombs (snd st)) \<subseteq> snd ` set (fst st)"
  shows "fst ` set (bombs (snd (fire rng online st))) \<subseteq> snd ` set (fst (fire rng online st))"
proof
  fix k
  assume k: "k \<in> fst ` set (bombs (snd (fire rng online st)))"
  obtain m where m: "pop_due (fst st) = Some m"
    using ne pop_due_nonempty by blast
  have pend: "set (fst st) = insert (fst m) (set (snd m))"
    using pop_due_set[OF m] .
  have rest: "set (snd m) \<subseteq> set (fst (fire rng online st))"
    using m by (auto simp: fire_def)
  have "k \<in> fst ` set (bombs (snd st)) \<and> k \<noteq> snd (fst m)"
  proof (cases "map_of (bombs (snd st)) (snd (fst m))")
    case None
    then have "snd (fst m) \<notin> fst ` set (bombs (snd st))"
      by (simp add: map_of_eq_None_iff)
    moreover have "snd (fire rng online st) = snd st"
      using m None by (simp add: fire_def explodeBomb_def explodeBomb_absent)
    ultimately show ?thesis using k by force
  next
    case (Some b)
    have "bombs (snd (fire rng online st)) = AList.delete (snd (fst m)) (bombs (snd st))"
      using m Some by (simp add: fire_def explodeBomb_def explodeBomb_bombs)
    then show ?thesis using k by (auto simp: AList.delete_eq)
  qed
  then have "k \<in> snd ` set (fst st)" "k \<noteq> snd (fst m)"
    using inv by auto
  then have "k \<in> snd ` set (snd m)"
    unfolding pend by auto
  then show "k \<in> snd ` set (fst (fire rng online st))"
    using rest by auto
qed

lemma drain_steps:
  "\<exists>n. fst ((fire rng online ^^ n) st) = [] \<and> drain rng online st = snd ((fire rng online ^^ n) st)"
proof (induction rng online st rule: drain.induct)
  case (1 rng online st)
  show ?case
  proof (cases "fst st = []")
    case True
    then have "fst ((fire rng online ^^ 0) st) = [] \<and>
        drain rng online st = snd ((fire rng online ^^ 0) st)"
      by (simp add: drain.simps)
    then show ?thesis by blast
  next
    case False
    from 1[OF False] obtain n where
      n: "fst ((fire rng online ^^ n) (fire rng online st)) = []"
         "drain rng online (fire rng online st) = snd ((fire rng online ^^ n) (fire rng online st))"
      by blast
    have "drain rng online st = drain rng online (fire rng online st)"
      using False by (subst drain.simps) simp
    with n have "fst ((fire rng online ^^ Suc n) st) = [] \<and>
        drain rng online st = snd ((fire rng online ^^ Suc n) st)"
      by (simp add: funpow_swap1)
    then show ?thesis by blast
  qed
qed

lemma drain_no_bombs:
  "fst ` set (bombs (snd st)) \<subseteq> snd ` set (fst st) \<Longrightarrow> bombs (drain rng online st) = []"
proof (induction rng online st rule: drain.induct)
  case (1 rng online st)
  show ?case
  proof (cases "fst st = []")
    case True
    with 1(2) show ?thesis by (simp add: drain.simps)
  next
    case False
    have "bombs (drain rng online (fire rng online st)) = []"
      using 1(1)[OF False] fire_keeps_pending[OF False 1(2)] by blast
    then show ?thesis using False by (subst drain.simps) simp
  qed
qed

lemma chain_excludes:
  "bombId \<notin> set (fst (snd (explodeBomb_with dec now rng online bombId r)))"
proof (cases "map_of (bombs r) bombId")
  case None
  then show ?thesis by (simp add: explodeBomb_with_def)
next
  case (Some b)
  then show ?thesis by (simp add: explodeBomb_with_def Let_def image_iff) blast
qed

lemma chain_short:
  "length (fst (snd (explodeBomb_with dec now rng online bombId r)))
     \<le> length (bombs (fst (explodeBomb_with dec now rng online bombId r)))"
proof (cases "map_of (bombs r) bombId")
  case None
  then show ?thesis by (simp add: explodeBomb_with_def)
next
  case (Some b)
  then show ?thesis by (simp add: explodeBomb_with_def Let_def checkWinCondition_def)
qed

text \<open>
  Claim C8. A detonation of a bomb id that is not in the room is a no-op. A detonation
  of a live bomb deletes the bomb, so the number of bombs strictly decreases; the bomb is
  not among those it schedules, and it schedules at most one detonation per remaining
  bomb. With no further placement, the pending detonations all fire after finitely many
  steps, whatever the bombs and the timers are (\<open>drain\<close> returns the room at that
  point); and when every live bomb has a pending detonation, as \<open>placeBomb\<close> arranges, no
  bomb is left.
\<close>

theorem chain_reaction_terminates:
  "(map_of (bombs r) bombId = None \<longrightarrow> explodeBomb now rng online bombId r = (r, [], []))
   \<and> (map_of (bombs r) bombId \<noteq> None \<longrightarrow>
        bombs (fst (explodeBomb now rng online bombId r)) = AList.delete bombId (bombs r)
      \<and> length (bombs (fst (explodeBomb now rng online bombId r))) < length (bombs r))
   \<and> bombId \<notin> set (fst (snd (explodeBomb now rng online bombId r)))
   \<and> length (fst (snd (explodeBomb now rng online bombId r)))
        \<le> length (bombs (fst (explodeBomb now rng online bombId r)))
   \<and> (\<exists>n. fst ((fire rng online ^^ n) st) = []
          \<and> drain rng online st = snd ((fire rng online ^^ n) st))
   \<and> (fst ` set (bombs (snd st)) \<subseteq> snd ` set (fst st) \<longrightarrow> bombs (drain rng online st) = [])"
proof -
  have absent: "map_of (bombs r) bombId = None \<longrightarrow>
      explodeBomb now rng online bombId r = (r, [], [])"
    by (simp add: explodeBomb_def explodeBomb_absent)
  have gone: "map_of (bombs r) bombId \<noteq> None \<longrightarrow>
        bombs (fst (explodeBomb now rng online bombId r)) = AList.delete bombId (bombs r)
      \<and> length (bombs (fst (explodeBomb now rng online bombId r))) < length (bombs r)"
    using explodeBomb_bombs[of r bombId] delete_shortens[of "bombs r" bombId]
    by (auto simp: explodeBomb_def)
  have excl: "bombId \<notin> set (fst (snd (explodeBomb now rng online bombId r)))"
    unfolding explodeBomb_def by (rule chain_excludes)
  have short: "length (fst (snd (explodeBomb now rng online bombId r)))
        \<le> length (bombs (fst (explodeBomb now rng online bombId r)))"
    unfolding explodeBomb_def by (rule chain_short)
  have empties: "fst ` set (bombs (snd st)) \<subseteq> snd ` set (fst st) \<longrightarrow>
      bombs (drain rng online st) = []"
    using drain_no_bombs[of st rng online] by simp
  from absent gone excl short drain_steps[of rng online st] empties
  show ?thesis by (intro conjI)
qed

lemma two_bombs_fire1:
  "fire no_draws all_online (two_fuses, two_bombs) =
     ([(7000, ''bomb_4000_2''), (6050, ''bomb_4000_2'')],
      rm [pl 1 ''s1'' ''Ann'' 64 64 100 True 0, pl 2 ''s2'' ''Bob'' 960 64 100 True 1] Playing
         [bm ''bomb_4000_2'' 576 384 2 4000] [] [])"
  by (simp add: fire_def two_fuses_def two_bombs_def blast_eval)

lemma two_bombs_fire2:
  "fire no_draws all_online
     ([(7000, ''bomb_4000_2''), (6050, ''bomb_4000_2'')],
      rm [pl 1 ''s1'' ''Ann'' 64 64 100 True 0, pl 2 ''s2'' ''Bob'' 960 64 100 True 1] Playing
         [bm ''bomb_4000_2'' 576 384 2 4000] [] [])
   = ([(7000, ''bomb_4000_2'')],
      rm [pl 1 ''s1'' ''Ann'' 64 64 100 True 0, pl 2 ''s2'' ''Bob'' 960 64 100 True 0] Playing
         [] [] [])"
  by (simp add: fire_def blast_eval)

lemma two_bombs_fire3:
  "fire no_draws all_online
     ([(7000, ''bomb_4000_2'')],
      rm [pl 1 ''s1'' ''Ann'' 64 64 100 True 0, pl 2 ''s2'' ''Bob'' 960 64 100 True 0] Playing
         [] [] [])
   = ([],
      rm [pl 1 ''s1'' ''Ann'' 64 64 100 True 0, pl 2 ''s2'' ''Bob'' 960 64 100 True 0] Playing
         [] [] [])"
  by (simp add: fire_def blast_eval)

lemma two_bombs_drain:
  "drain no_draws all_online (two_fuses, two_bombs) =
     rm [pl 1 ''s1'' ''Ann'' 64 64 100 True 0, pl 2 ''s2'' ''Bob'' 960 64 100 True 0] Playing
        [] [] []"
proof -
  have "drain no_draws all_online (two_fuses, two_bombs) =
      drain no_draws all_online (fire no_draws all_online (two_fuses, two_bombs))"
    by (subst drain.simps) (simp add: two_fuses_def)
  also have "\<dots> = drain no_draws all_online (fire no_draws all_online
     ([(7000, ''bomb_4000_2''), (6050, ''bomb_4000_2'')],
      rm [pl 1 ''s1'' ''Ann'' 64 64 100 True 0, pl 2 ''s2'' ''Bob'' 960 64 100 True 1] Playing
         [bm ''bomb_4000_2'' 576 384 2 4000] [] []))"
    unfolding two_bombs_fire1 by (subst drain.simps) simp
  also have "\<dots> = drain no_draws all_online (fire no_draws all_online
     ([(7000, ''bomb_4000_2'')],
      rm [pl 1 ''s1'' ''Ann'' 64 64 100 True 0, pl 2 ''s2'' ''Bob'' 960 64 100 True 0] Playing
         [] [] []))"
    unfolding two_bombs_fire2 by (subst drain.simps) simp
  also have "\<dots> = rm [pl 1 ''s1'' ''Ann'' 64 64 100 True 0, pl 2 ''s2'' ''Bob'' 960 64 100 True 0]
      Playing [] [] []"
    unfolding two_bombs_fire3 by (subst drain.simps) simp
  finally show ?thesis .
qed

text \<open>The statement for two bombs side by side: the first fuse detonates the first bomb
  and schedules the second, the chained timer detonates the second, and the second bomb's
  own fuse finds nothing.\<close>

theorem chain_reaction_terminates_witness:
  "fst ` set (bombs (snd (two_fuses, two_bombs))) \<subseteq> snd ` set (fst (two_fuses, two_bombs))
   \<and> map_of (bombs two_bombs) ''bomb_3000_1'' \<noteq> None
   \<and> length (bombs (fst (explodeBomb 6000 no_draws all_online ''bomb_3000_1'' two_bombs)))
       < length (bombs two_bombs)
   \<and> bombs (drain no_draws all_online (two_fuses, two_bombs)) = []
   \<and> drain no_draws all_online (two_fuses, two_bombs) =
       rm [pl 1 ''s1'' ''Ann'' 64 64 100 True 0, pl 2 ''s2'' ''Bob'' 960 64 100 True 0] Playing
          [] [] []"
proof -
  have pending: "fst ` set (bombs (snd (two_fuses, two_bombs)))
      \<subseteq> snd ` set (fst (two_fuses, two_bombs))"
    by (simp add: two_fuses_def two_bombs_def rm_def bm_def)
  have live: "map_of (bombs two_bombs) ''bomb_3000_1'' \<noteq> None"
    by (simp add: two_bombs_def rm_def bm_def)
  from pending live two_bombs_drain
    chain_reaction_terminates[of two_bombs "''bomb_3000_1''" 6000 no_draws all_online
      "(two_fuses, two_bombs)"]
  show ?thesis by blast
qed

subsection \<open>Rejoining\<close>

lemma find_seat:
  "distinct (map fst al) \<Longrightarrow> map_of al k = Some p \<Longrightarrow> name p = nm \<Longrightarrow>
     find (\<lambda>kp. name (snd kp) = nm \<and> fst kp = k) al = Some (k, p)"
proof (induction al)
  case Nil
  then show ?case by simp
next
  case (Cons e al)
  then show ?case by (cases e) (auto split: if_splits)
qed

lemma rejoin_seat:
  assumes "distinct (map fst (players r))"
    and "map_of (players r) (trans_playerId td) = Some p"
    and "name p = trans_playerName td"
  shows "rejoinTransitioningPlayer sock td r =
           Some (p\<lparr>socket := sock\<rparr>, rebound sock (trans_playerId td) p r)"
  using find_seat[OF assms] by (simp add: rejoinTransitioningPlayer_def rebound_def)

lemma broadcast_not_joined:
  "\<not> is_PlayerJoined ev \<Longrightarrow> list_all (\<lambda>e. \<not> is_PlayerJoined (snd e)) (broadcastToRoom online r ev)"
  by (simp add: broadcastToRoom_def list_all_iff)

text \<open>
  Claim C3, as the code has it. A join request finds the first transition record of its
  room whose name or slot number equals the request's; the seat that the record names is
  still held under the recorded name (the keys of the \<open>players\<close> map are distinct, as
  the keys of a \<open>Map\<close> are). Then the seat's socket becomes the new connection,
  the record is removed, the new connection is bound to the seat and receives
  \<open>roomJoined\<close> with \<open>isReconnecting\<close>, no timer is set and no \<open>playerJoined\<close> is sent. If
  the room is \<open>playing\<close>, the new connection alone receives \<open>gameStarted\<close> with a snapshot,
  and then \<open>gameStateUpdate\<close> with a snapshot is broadcast to every connected player of the
  room.
\<close>

theorem rejoin_rebinds_slot:
  assumes room: "map_of (gameRooms s) (data_roomId d) = Some r"
    and found: "find (matches_transition d) (transitioningPlayers s) = Some (old, td)"
    and keys: "distinct (map fst (players r))"
    and seat: "map_of (players r) (trans_playerId td) = Some p"
    and nm: "name p = trans_playerName td"
  shows "joinRoom_standalone online sock d s =
           (s\<lparr>gameRooms :=
                AList.update (data_roomId d) (rebound sock (trans_playerId td) p r) (gameRooms s),
              playerSockets := AList.update sock (data_roomId d, player_id p) (playerSockets s),
              transitioningPlayers := AList.delete old (transitioningPlayers s)\<rparr>,
            (ToSocket sock, RoomJoined (player_id p) (rebound sock (trans_playerId td) p r) (Some True))
              # (if gameState r = Playing
                 then (ToSocket sock, GameStarted (rebound sock (trans_playerId td) p r))
                        # broadcastToRoom online (rebound sock (trans_playerId td) p r)
                            (GameStateUpdate (rebound sock (trans_playerId td) p r))
                 else []),
            [])
       \<and> map_of (players (rebound sock (trans_playerId td) p r)) (trans_playerId td)
            = Some (p\<lparr>socket := sock\<rparr>)
       \<and> map_of (transitioningPlayers (fst (joinRoom_standalone online sock d s))) old = None
       \<and> list_all (\<lambda>e. \<not> is_PlayerJoined (snd e)) (fst (snd (joinRoom_standalone online sock d s)))"
proof -
  let ?r' = "rebound sock (trans_playerId td) p r"
  have gs: "gameState ?r' = gameState r"
    by (simp add: rebound_def)
  have result: "joinRoom_standalone online sock d s =
           (s\<lparr>gameRooms := AList.update (data_roomId d) ?r' (gameRooms s),
              playerSockets := AList.update sock (data_roomId d, player_id p) (playerSockets s),
              transitioningPlayers := AList.delete old (transitioningPlayers s)\<rparr>,
            (ToSocket sock, RoomJoined (player_id p) ?r' (Some True))
              # (if gameState r = Playing
                 then (ToSocket sock, GameStarted ?r')
                        # broadcastToRoom online ?r' (GameStateUpdate ?r')
                 else []),
            [])"
    using room found rejoin_seat[OF keys seat nm, of sock] gs
    by (simp add: joinRoom_standalone_def Let_def)
  have seat': "map_of (players ?r') (trans_playerId td) = Some (p\<lparr>socket := sock\<rparr>)"
    by (simp add: rebound_def update_conv')
  have gone: "map_of (transitioningPlayers (fst (joinRoom_standalone online sock d s))) old = None"
    by (simp add: result delete_conv')
  have quiet: "list_all (\<lambda>e. \<not> is_PlayerJoined (snd e))
      (fst (snd (joinRoom_standalone online sock d s)))"
    using broadcast_not_joined[of "GameStateUpdate ?r'" online ?r']
    by (simp add: result is_PlayerJoined_def)
  show ?thesis using result seat' gone quiet by blast
qed

lemmas rejoin_eval =
  after_drop_def rejoin_request_def started_room_def rec_of_def pl5_def rm_def pl_def
  all_online_def matches_transition_def

lemma started_room_from_startGame:
  "startGame_standalone 2000
     (rm [pl5 1 ''s1'' ''Ann'' 64 64, pl5 2 ''s2'' ''Bob'' 960 64] Waiting [] [] []) []
   = (started_room ''s1'', [rec_of ''s1'' 1 ''Ann'', rec_of ''s2'' 2 ''Bob''])"
  by (simp add: startGame_standalone_def startGame_def rejoin_eval)

text \<open>The statement for the socket \<open>s3\<close> that asks to join room \<open>'r'\<close> under Ann's name
  after Ann's socket \<open>s1\<close> dropped: \<open>s3\<close> takes seat 1 and the record of \<open>s1\<close> is removed.\<close>

theorem rejoin_rebinds_slot_witness:
  "map_of (gameRooms after_drop) (data_roomId rejoin_request) = Some (started_room ''s1'')
   \<and> find (matches_transition rejoin_request) (transitioningPlayers after_drop)
       = Some (rec_of ''s1'' 1 ''Ann'')
   \<and> fst (joinRoom_standalone all_online ''s3'' rejoin_request after_drop)
       = \<lparr>gameRooms = [(''r'', started_room ''s3'')],
          playerSockets = [(''s2'', (''r'', 2)), (''s3'', (''r'', 1))],
          transitioningPlayers = [rec_of ''s2'' 2 ''Bob'']\<rparr>
   \<and> list_all (\<lambda>e. \<not> is_PlayerJoined (snd e))
       (fst (snd (joinRoom_standalone all_online ''s3'' rejoin_request after_drop)))"
proof -
  have room: "map_of (gameRooms after_drop) (data_roomId rejoin_request)
      = Some (started_room ''s1'')"
    by (simp add: after_drop_def rejoin_request_def)
  have found: "find (matches_transition rejoin_request) (transitioningPlayers after_drop)
      = Some (fst (rec_of ''s1'' 1 ''Ann''), snd (rec_of ''s1'' 1 ''Ann''))"
    by (simp add: rejoin_eval)
  have keys: "distinct (map fst (players (started_room ''s1'')))"
    by (simp add: rejoin_eval)
  have seat: "map_of (players (started_room ''s1'')) (trans_playerId (snd (rec_of ''s1'' 1 ''Ann'')))
      = Some (snd (pl5 1 ''s1'' ''Ann'' 64 64))"
    by (simp add: rejoin_eval)
  have nm: "name (snd (pl5 1 ''s1'' ''Ann'' 64 64)) = trans_playerName (snd (rec_of ''s1'' 1 ''Ann''))"
    by (simp add: rejoin_eval)
  have quiet: "list_all (\<lambda>e. \<not> is_PlayerJoined (snd e))
       (fst (snd (joinRoom_standalone all_online ''s3'' rejoin_request after_drop)))"
    using rejoin_rebinds_slot[OF room found keys seat nm, of all_online "''s3''"] by blast
  have state: "fst (joinRoom_standalone all_online ''s3'' rejoin_request after_drop)
       = \<lparr>gameRooms = [(''r'', started_room ''s3'')],
          playerSockets = [(''s2'', (''r'', 2)), (''s3'', (''r'', 1))],
          transitioningPlayers = [rec_of ''s2'' 2 ''Bob'']\<rparr>"
    using rejoin_rebinds_slot[OF room found keys seat nm, of all_online "''s3''"]
    by (simp add: rebound_def AList.delete_eq rejoin_eval)
  from room found quiet state show ?thesis by simp
qed

text \<open>
  Claim C3 as stated fails in its last part. When \<open>s3\<close> rejoins the playing room as Ann,
  Bob's socket \<open>s2\<close> receives a \<open>gameStateUpdate\<close> snapshot as well.
\<close>

theorem rejoin_broadcast_counterexample:
  "gameState (started_room ''s1'') = Playing
   \<and> snd (joinRoom_standalone all_online ''s3'' rejoin_request after_drop) =
       ([(ToSocket ''s3'', RoomJoined 1 (started_room ''s3'') (Some True)),
         (ToSocket ''s3'', GameStarted (started_room ''s3'')),
         (ToSocket ''s3'', GameStateUpdate (started_room ''s3'')),
         (ToSocket ''s2'', GameStateUpdate (started_room ''s3''))], [])"
  by (simp add: joinRoom_standalone_def rejoinTransitioningPlayer_def broadcastToRoom_def
      Let_def rejoin_eval)

end
